theory Spec2Isabelle
  imports Main "HOL-Library.Word" "HOL-Library.Signed_Division"
begin

section \<open>The syntax tree consumed by the evaluator\<close>

text \<open>
  The evaluator of package \<open>machine\<close> walks the syntax tree of an external JavaScript
  parser. Only the node kinds and fields that the evaluator reads are represented; every
  other node kind is \<open>OtherNode\<close>, and a nil interface value is \<open>NilNode\<close>.
  A binding element is the pair (Binding, Default); a property is the pair
  (Name, Value), where Name is a nil pointer (\<open>None\<close>) or the pair
  (Literal.Data, Computed). The bodies of functions and of for-in loops are block
  statements and are kept as their statement lists.
\<close>

datatype token =
    EqToken | EqEqToken | EqEqEqToken | AddToken | SubToken | MulToken | DivToken
  | DecimalToken | StringToken | ConstToken | LetToken | VarToken | OtherToken

datatype node =
    NilNode
  | IfStmt node node node
  | ReturnStmt node
  | BlockStmt "node list"
  | ExprStmt node
  | VarDecl token "(node \<times> node) list"
  | LiteralExpr token string
  | CallExpr node "node list"
  | Var string
  | BinaryExpr token node node
  | ArrowFunc "(node \<times> node) list" "node list"
  | FuncDecl "string option" "(node \<times> node) list" "node list"
  | ObjectExpr "((string \<times> node) option \<times> node) list"
  | ArrayExpr "node list"
  | DotExpr node string
  | ForInStmt node node "node list"
  | IndexExpr node node
  | OtherNode

type_synonym binding_element = "node \<times> node"

section \<open>Runtime values, errors and outcomes\<close>

text \<open>
  Go's \<open>int\<close> is taken as the 64-bit two's complement integer. The type parameter
  \<open>'f\<close> stands for \<open>float64\<close>, whose arithmetic is supplied by the platform record
  below. Objects (\<open>map[string]interface{}\<close>) and arrays (\<open>[]interface{}\<close>) are
  references into the heap of the state. A function value is one of: the closure made by
  \<open>GenerateJSFunction\<close> (parameters, body, captured scope pointer), one of the six
  closures made by \<open>EvalDotExpr\<close> (capturing the object or the array), or a function
  supplied by the host.
\<close>

type_synonym go_int = "64 word"

datatype builtin = Reduce | MapMethod | ForEach

datatype 'f val =
    Undefined
  | IntV go_int
  | FloatV 'f
  | StringV string
  | BoolV bool
  | ObjectV nat
  | ArrayV nat
  | FuncV "binding_element list" "node list" "nat option"
  | ObjMethodV builtin nat
  | AryMethodV builtin nat
  | NativeV nat

datatype error =
    NotPairError
  | NotFunctionError
  | IndexOutOfBoundsError go_int
  | NonIntegerIndexError
  | NotObjectError
  | NotDeclaredError string
  | BinaryOpNotImplementedError
  | NotImplementedError
  | NotCallableError
  | WrongNumberOfArgsError nat nat
  | WrongReturnValueError
  | NoReturnValueError
  | MutatingConstantError string
  | NumError
  | HostError nat

text \<open>
  A run-time panic of Go is not an error value: no function of the package recovers from
  one, so it unwinds through the evaluator to the host. \<open>OutOfFuel\<close> is the outcome of
  an evaluation that needs a deeper recursion than the bound it was given.
\<close>

datatype panic =
    IndexOutOfRange
  | IntegerDivideByZero
  | MakeSliceLenOutOfRange
  | SliceBoundsOutOfRange
  | NilPointerDereference
  | ReflectZeroValue
  | HostPanic nat

datatype 'a outcome = Ok 'a | Err error | Panic panic | OutOfFuel

definition bind :: "'a outcome \<times> 's \<Rightarrow> ('a \<Rightarrow> 's \<Rightarrow> 'b outcome \<times> 's) \<Rightarrow> 'b outcome \<times> 's" where
  "bind m f =
     (case m of
        (Ok a, s) \<Rightarrow> f a s
      | (Err e, s) \<Rightarrow> (Err e, s)
      | (Panic p, s) \<Rightarrow> (Panic p, s)
      | (OutOfFuel, s) \<Rightarrow> (OutOfFuel, s))"

section \<open>Package scope\<close>

record 'f Binding =
  Item :: "'f val"
  Constant :: bool

record 'f S =
  Parent :: "nat option"
  bindings :: "string \<rightharpoonup> 'f Binding"

definition S_New :: "nat option \<Rightarrow> 'f S" where
  "S_New parent = \<lparr>Parent = parent, bindings = Map.empty\<rparr>"

text \<open>\<open>S.Set\<close> returns the error (or nil) and the scope as it is after the call.\<close>

definition S_Set :: "'f S \<Rightarrow> string \<Rightarrow> 'f Binding \<Rightarrow> error option \<times> 'f S" where
  "S_Set s name binding =
     (if (case bindings s name of Some old \<Rightarrow> Constant old | None \<Rightarrow> False)
      then (Some (MutatingConstantError name), s)
      else (None, s\<lparr>bindings := (bindings s)(name \<mapsto> binding)\<rparr>))"

definition S_Get :: "'f S \<Rightarrow> string \<Rightarrow> 'f Binding option" where
  "S_Get s name = bindings s name"

section \<open>The runtime state and the platform\<close>

text \<open>
  The state holds what the evaluator reads and mutates: the pointer \<open>Runtime.Scope\<close>,
  the scopes it points into, the heap of objects and arrays, and the two tables of
  globals. A pointer is an address or nil (\<open>None\<close>).
\<close>

record 'f state =
  Scope :: "nat option"
  scopes :: "nat \<Rightarrow> 'f S"
  scope_count :: nat
  objects :: "nat \<Rightarrow> (string \<rightharpoonup> 'f val)"
  object_count :: nat
  arrays :: "nat \<Rightarrow> 'f val list"
  array_count :: nat
  Globals :: "string \<rightharpoonup> 'f val"
  MGlobals :: "string \<rightharpoonup> 'f val"

type_synonym 'f result = "'f val outcome \<times> 'f state"
type_synonym 'f evaluator = "node \<Rightarrow> 'f state \<Rightarrow> 'f result"

text \<open>
  The type of a Go function as package \<open>reflect\<close> shows it: the types of the parameters
  (a variadic parameter is one parameter), whether it is variadic, and the types of the
  results.
\<close>

datatype gotype = TIface | TError | TIfaceSlice | TOther nat

record func_type =
  ins :: "gotype list"
  variadic :: bool
  outs :: "gotype list"

text \<open>
  What the package takes from the Go platform and from the host, and is not part of its
  source: \<open>float64\<close> arithmetic, \<open>strconv.Atoi\<close> and \<open>strconv.ParseFloat\<close>
  (\<open>None\<close> is their error), the rendering by \<open>fmt.Sprint\<close> of floats and of
  references, the order in which \<open>range\<close> enumerates a map, \<open>reflect.Value.Pointer\<close>,
  the greatest length \<open>make\<close> accepts for a \<open>[]interface{}\<close> (the allocator's limit
  \<open>maxAlloc\<close> divided by the 16 bytes of an element: \<open>2 ^ 44\<close> where addresses have
  48 bits), and the functions the host registers (their type, and what a call does).
\<close>

record 'f platform =
  f_add :: "'f \<Rightarrow> 'f \<Rightarrow> 'f"
  f_sub :: "'f \<Rightarrow> 'f \<Rightarrow> 'f"
  f_mul :: "'f \<Rightarrow> 'f \<Rightarrow> 'f"
  f_div :: "'f \<Rightarrow> 'f \<Rightarrow> 'f"
  f_eq :: "'f \<Rightarrow> 'f \<Rightarrow> bool"
  f_of_int :: "go_int \<Rightarrow> 'f"
  atoi :: "string \<Rightarrow> go_int option"
  parse_float :: "string \<Rightarrow> 'f option"
  sprint_float :: "'f \<Rightarrow> string"
  sprint_ref :: "'f state \<Rightarrow> 'f val \<Rightarrow> string"
  range_keys :: "(string \<rightharpoonup> 'f val) \<Rightarrow> string list"
  pointer :: "'f state \<Rightarrow> 'f val \<Rightarrow> nat"
  max_slice_len :: nat
  native_type :: "nat \<Rightarrow> func_type"
  native_call :: "nat \<Rightarrow> 'f val list \<Rightarrow> 'f state \<Rightarrow> 'f result"

subsection \<open>Rendering with fmt.Sprint\<close>

fun dec_nat :: "nat \<Rightarrow> string" where
  "dec_nat n =
     (if n < 10 then [''0123456789'' ! n] else dec_nat (n div 10) @ [''0123456789'' ! (n mod 10)])"

definition sprint_int :: "go_int \<Rightarrow> string" where
  "sprint_int i = (if sint i < 0 then CHR ''-'' # dec_nat (nat (- sint i)) else dec_nat (nat (sint i)))"

definition Sprint :: "'f platform \<Rightarrow> 'f state \<Rightarrow> 'f val \<Rightarrow> string" where
  "Sprint P st v =
     (case v of
        Undefined \<Rightarrow> ''<nil>''
      | IntV i \<Rightarrow> sprint_int i
      | FloatV f \<Rightarrow> sprint_float P f
      | StringV s \<Rightarrow> s
      | BoolV b \<Rightarrow> (if b then ''true'' else ''false'')
      | _ \<Rightarrow> sprint_ref P st v)"

section \<open>Arithmetic: Add, Sub, Mul, Div\<close>

text \<open>
  The four functions take the two evaluated operands. \<open>Add\<close> and \<open>Mul\<close> on arrays read
  the operands in the heap and allocate the result there, so all four take and return
  the state.
\<close>

definition new_array :: "'f val list \<Rightarrow> 'f state \<Rightarrow> 'f result" where
  "new_array xs st =
     (Ok (ArrayV (array_count st)),
      st\<lparr>arrays := (arrays st)(array_count st := xs), array_count := Suc (array_count st)\<rparr>)"

definition new_object :: "(string \<rightharpoonup> 'f val) \<Rightarrow> 'f state \<Rightarrow> 'f result" where
  "new_object m st =
     (Ok (ObjectV (object_count st)),
      st\<lparr>objects := (objects st)(object_count st := m), object_count := Suc (object_count st)\<rparr>)"

definition Add :: "'f platform \<Rightarrow> 'f val \<Rightarrow> 'f val \<Rightarrow> 'f state \<Rightarrow> 'f result" where
  "Add P x y st =
     (case x of
        IntV xv \<Rightarrow>
          (case y of
             IntV yv \<Rightarrow> (Ok (IntV (xv + yv)), st)
           | FloatV yv \<Rightarrow> (Ok (FloatV (f_add P (f_of_int P xv) yv)), st)
           | _ \<Rightarrow> (Err BinaryOpNotImplementedError, st))
      | FloatV xv \<Rightarrow>
          (case y of
             IntV yv \<Rightarrow> (Ok (FloatV (f_add P xv (f_of_int P yv))), st)
           | FloatV yv \<Rightarrow> (Ok (FloatV (f_add P xv yv)), st)
           | _ \<Rightarrow> (Err BinaryOpNotImplementedError, st))
      | StringV xv \<Rightarrow>
          (case y of
             IntV yv \<Rightarrow> (Ok (StringV (xv @ Sprint P st (IntV yv))), st)
           | FloatV yv \<Rightarrow> (Ok (StringV (xv @ Sprint P st (FloatV yv))), st)
           | StringV yv \<Rightarrow> (Ok (StringV (xv @ Sprint P st (StringV yv))), st)
           | _ \<Rightarrow> (Err BinaryOpNotImplementedError, st))
      | ArrayV xa \<Rightarrow>
          (case y of
             ArrayV ya \<Rightarrow> new_array (arrays st xa @ arrays st ya) st
           | _ \<Rightarrow> (Err BinaryOpNotImplementedError, st))
      | _ \<Rightarrow> (Err BinaryOpNotImplementedError, st))"

text \<open>
  \<open>xv / yv\<close> on \<open>int\<close> panics when the divisor is zero and truncates toward zero
  otherwise (the quotient of the most negative value by -1 wraps).
\<close>

definition int_quo :: "go_int \<Rightarrow> go_int \<Rightarrow> go_int outcome" where
  "int_quo xv yv =
     (if yv = 0 then Panic IntegerDivideByZero else Ok (word_of_int (sint xv sdiv sint yv)))"

definition Div :: "'f platform \<Rightarrow> 'f val \<Rightarrow> 'f val \<Rightarrow> 'f state \<Rightarrow> 'f result" where
  "Div P x y st =
     (case x of
        IntV xv \<Rightarrow>
          (case y of
             IntV yv \<Rightarrow>
               (case int_quo xv yv of
                  Ok q \<Rightarrow> (Ok (IntV q), st)
                | Err e \<Rightarrow> (Err e, st)
                | Panic p \<Rightarrow> (Panic p, st)
                | OutOfFuel \<Rightarrow> (OutOfFuel, st))
           | FloatV yv \<Rightarrow> (Ok (FloatV (f_div P (f_of_int P xv) yv)), st)
           | _ \<Rightarrow> (Err BinaryOpNotImplementedError, st))
      | FloatV xv \<Rightarrow>
          (case y of
             IntV yv \<Rightarrow> (Ok (FloatV (f_div P xv (f_of_int P yv))), st)
           | FloatV yv \<Rightarrow> (Ok (FloatV (f_div P xv yv)), st)
           | _ \<Rightarrow> (Err BinaryOpNotImplementedError, st))
      | _ \<Rightarrow> (Err BinaryOpNotImplementedError, st))"

definition Sub :: "'f platform \<Rightarrow> 'f val \<Rightarrow> 'f val \<Rightarrow> 'f state \<Rightarrow> 'f result" where
  "Sub P x y st =
     (case x of
        IntV xv \<Rightarrow>
          (case y of
             IntV yv \<Rightarrow> (Ok (IntV (xv - yv)), st)
           | FloatV yv \<Rightarrow> (Ok (FloatV (f_sub P (f_of_int P xv) yv)), st)
           | _ \<Rightarrow> (Err BinaryOpNotImplementedError, st))
      | FloatV xv \<Rightarrow>
          (case y of
             IntV yv \<Rightarrow> (Ok (FloatV (f_sub P xv (f_of_int P yv))), st)
           | FloatV yv \<Rightarrow> (Ok (FloatV (f_sub P xv yv)), st)
           | _ \<Rightarrow> (Err BinaryOpNotImplementedError, st))
      | _ \<Rightarrow> (Err BinaryOpNotImplementedError, st))"

text \<open>
  The loop \<open>for i := 0; i < yv; i++ { res += xv }\<close> of \<open>Mul\<close> on a string. The counter
  stays below \<open>yv\<close>, so it is kept as an \<open>int\<close>.
\<close>

function Mul_string_loop :: "int \<Rightarrow> int \<Rightarrow> string \<Rightarrow> string \<Rightarrow> string" where
  "Mul_string_loop i yv res xv =
     (if i < yv then Mul_string_loop (i + 1) yv (res @ xv) xv else res)"
  by pat_completeness auto
termination
  by (relation "measure (\<lambda>(i, yv, res, xv). nat (yv - i))") auto

text \<open>
  \<open>make([]interface{}, n)\<close> panics (\<open>makeslice: len out of range\<close>) on a negative
  length and on a length above the allocator's limit, which the platform gives;
  \<open>res[off:]\<close> panics unless \<open>0 \<le> off \<le> len(res)\<close>; \<open>copy\<close> writes as many elements as
  fit. Within the limit an allocation can still find the machine out of memory, which ends
  the process: the memory that the values take is not modelled, so the allocations whose
  length is that of values already there (the sum of two arrays in \<open>Add\<close>, an array
  literal) are taken to succeed, and the limit is tested where the length comes from a
  number of the program, in \<open>Mul\<close>.
\<close>

definition make_slice :: "'f platform \<Rightarrow> go_int \<Rightarrow> 'f val list outcome" where
  "make_slice P n =
     (if sint n < 0 \<or> int (max_slice_len P) < sint n then Panic MakeSliceLenOutOfRange
      else Ok (replicate (nat (sint n)) Undefined))"

definition copy_from :: "'f val list \<Rightarrow> go_int \<Rightarrow> 'f val list \<Rightarrow> 'f val list outcome" where
  "copy_from res off src =
     (if sint off < 0 \<or> int (length res) < sint off then Panic SliceBoundsOutOfRange
      else let k = nat (sint off); n = min (length res - k) (length src)
           in Ok (take k res @ take n src @ drop (k + n) res))"

function Mul_array_loop :: "int \<Rightarrow> int \<Rightarrow> 'f val list \<Rightarrow> 'f val list \<Rightarrow> 'f val list outcome" where
  "Mul_array_loop i yv res xv =
     (if i < yv then
        (case copy_from res (word_of_int i * word_of_nat (length xv)) xv of
           Ok res' \<Rightarrow> Mul_array_loop (i + 1) yv res' xv
         | Err e \<Rightarrow> Err e
         | Panic p \<Rightarrow> Panic p
         | OutOfFuel \<Rightarrow> OutOfFuel)
      else Ok res)"
  by pat_completeness auto
termination
  by (relation "measure (\<lambda>(i, yv, res, xv). nat (yv - i))") auto

definition Mul :: "'f platform \<Rightarrow> 'f val \<Rightarrow> 'f val \<Rightarrow> 'f state \<Rightarrow> 'f result" where
  "Mul P x y st =
     (case x of
        IntV xv \<Rightarrow>
          (case y of
             IntV yv \<Rightarrow> (Ok (IntV (xv * yv)), st)
           | FloatV yv \<Rightarrow> (Ok (FloatV (f_mul P (f_of_int P xv) yv)), st)
           | _ \<Rightarrow> (Err BinaryOpNotImplementedError, st))
      | FloatV xv \<Rightarrow>
          (case y of
             IntV yv \<Rightarrow> (Ok (FloatV (f_mul P xv (f_of_int P yv))), st)
           | FloatV yv \<Rightarrow> (Ok (FloatV (f_mul P xv yv)), st)
           | _ \<Rightarrow> (Err BinaryOpNotImplementedError, st))
      | StringV xv \<Rightarrow>
          (case y of
             IntV yv \<Rightarrow> (Ok (StringV (Mul_string_loop 0 (sint yv) [] xv)), st)
           | _ \<Rightarrow> (Err BinaryOpNotImplementedError, st))
      | ArrayV xa \<Rightarrow>
          (case y of
             IntV yv \<Rightarrow>
               (let xv = arrays st xa in
                case make_slice P (word_of_nat (length xv) * yv) of
                  Ok res0 \<Rightarrow>
                    (case Mul_array_loop 0 (sint yv) res0 xv of
                       Ok res \<Rightarrow> new_array res st
                     | Err e \<Rightarrow> (Err e, st)
                     | Panic p \<Rightarrow> (Panic p, st)
                     | OutOfFuel \<Rightarrow> (OutOfFuel, st))
                | Err e \<Rightarrow> (Err e, st)
                | Panic p \<Rightarrow> (Panic p, st)
                | OutOfFuel \<Rightarrow> (OutOfFuel, st))
           | _ \<Rightarrow> (Err BinaryOpNotImplementedError, st))
      | _ \<Rightarrow> (Err BinaryOpNotImplementedError, st))"

section \<open>Name resolution and scope mutation\<close>

text \<open>
  \<open>Runtime.Lookup\<close> walks the parent pointers from \<open>Runtime.Scope\<close> until nil. The
  walk is bounded by the number of scopes allocated so far: a longer walk is a cycle of
  parent pointers, on which the loop of the source never ends.
\<close>

fun Lookup_loop :: "nat \<Rightarrow> 'f state \<Rightarrow> nat option \<Rightarrow> string \<Rightarrow> 'f val option outcome" where
  "Lookup_loop 0 st scope name = OutOfFuel"
| "Lookup_loop (Suc n) st None name = Ok None"
| "Lookup_loop (Suc n) st (Some a) name =
     (case S_Get (scopes st a) name of
        Some binding \<Rightarrow> Ok (Some (Item binding))
      | None \<Rightarrow> Lookup_loop n st (Parent (scopes st a)) name)"

definition Lookup :: "'f state \<Rightarrow> string \<Rightarrow> 'f result" where
  "Lookup st name =
     (case Lookup_loop (Suc (scope_count st)) st (Scope st) name of
        Ok (Some item) \<Rightarrow> (Ok item, st)
      | Ok None \<Rightarrow>
          (case Globals st name of
             Some item \<Rightarrow> (Ok item, st)
           | None \<Rightarrow>
               (case MGlobals st name of
                  Some item \<Rightarrow> (Ok item, st)
                | None \<Rightarrow> (Err (NotDeclaredError name), st)))
      | Err e \<Rightarrow> (Err e, st)
      | Panic p \<Rightarrow> (Panic p, st)
      | OutOfFuel \<Rightarrow> (OutOfFuel, st))"

text \<open>\<open>e.Runtime.Scope = scope.New(parent)\<close>: a fresh scope becomes the active one.\<close>

definition enter_scope :: "nat option \<Rightarrow> 'f state \<Rightarrow> 'f state" where
  "enter_scope parent st =
     st\<lparr>Scope := Some (scope_count st),
        scopes := (scopes st)(scope_count st := S_New parent),
        scope_count := Suc (scope_count st)\<rparr>"

text \<open>
  \<open>e.Runtime.Scope.Set(name, binding)\<close>: the call of \<open>S.Set\<close> on the active scope. The
  value is the error that \<open>Set\<close> returns (\<open>None\<close> for nil); each caller decides what to
  do with it.
\<close>

definition Scope_Set :: "'f state \<Rightarrow> string \<Rightarrow> 'f Binding \<Rightarrow> error option outcome \<times> 'f state" where
  "Scope_Set st name binding =
     (case Scope st of
        None \<Rightarrow> (Panic NilPointerDereference, st)
      | Some a \<Rightarrow>
          (case S_Set (scopes st a) name binding of
             (err, s') \<Rightarrow> (Ok err, st\<lparr>scopes := (scopes st)(a := s')\<rparr>)))"

text \<open>The deferred \<open>e.Runtime.Scope = e.Runtime.Scope.Parent\<close> of a block and of a loop body.\<close>

definition leave_scope :: "'a outcome \<times> 'f state \<Rightarrow> 'a outcome \<times> 'f state" where
  "leave_scope r =
     (case r of
        (out, st) \<Rightarrow>
          (case Scope st of
             None \<Rightarrow> (Panic NilPointerDereference, st)
           | Some a \<Rightarrow> (out, st\<lparr>Scope := Parent (scopes st a)\<rparr>)))"

section \<open>The evaluator\<close>

text \<open>
  Each method of \<open>Evaluator\<close> is a definition that takes, as \<open>ev\<close>, the method \<open>Eval\<close>
  it calls on sub-nodes; \<open>Eval\<close> itself closes the recursion at the end of the section.
  A method that returns only an \<open>error\<close> has a \<open>unit\<close> outcome.
\<close>

definition EvalReturnStmt :: "'f evaluator \<Rightarrow> node \<Rightarrow> 'f state \<Rightarrow> 'f result" where
  "EvalReturnStmt ev val st = ev val st"

definition EvalTruth :: "'f platform \<Rightarrow> 'f val \<Rightarrow> bool" where
  "EvalTruth P iVal =
     (case iVal of
        Undefined \<Rightarrow> False
      | FloatV val \<Rightarrow> \<not> f_eq P val (f_of_int P 0)
      | IntV val \<Rightarrow> val \<noteq> 0
      | StringV val \<Rightarrow> val \<noteq> []
      | BoolV val \<Rightarrow> val
      | _ \<Rightarrow> True)"

definition EvalIfStmt :: "'f platform \<Rightarrow> 'f evaluator \<Rightarrow> node \<Rightarrow> node \<Rightarrow> node \<Rightarrow> 'f state \<Rightarrow> unit outcome \<times> 'f state" where
  "EvalIfStmt P ev cond body els st =
     bind (ev cond st) (\<lambda>c st.
       bind (if EvalTruth P c then ev body st else ev els st) (\<lambda>_ st. (Ok (), st)))"

definition EvalLiteralExpr :: "'f platform \<Rightarrow> token \<Rightarrow> string \<Rightarrow> 'f state \<Rightarrow> 'f result" where
  "EvalLiteralExpr P tt data st =
     (case tt of
        DecimalToken \<Rightarrow>
          (case atoi P data of
             Some intVal \<Rightarrow> (Ok (IntV intVal), st)
           | None \<Rightarrow>
               (case parse_float P data of
                  Some f \<Rightarrow> (Ok (FloatV f), st)
                | None \<Rightarrow> (Err NumError, st)))
      | StringToken \<Rightarrow>
          (if length data < 2 then (Panic SliceBoundsOutOfRange, st)
           else (Ok (StringV (take (length data - 2) (drop 1 data))), st))
      | _ \<Rightarrow> (Err NotImplementedError, st))"

definition EvalVar :: "string \<Rightarrow> 'f state \<Rightarrow> 'f result" where
  "EvalVar name st = Lookup st name"

subsection \<open>Bindings, declarations and blocks\<close>

definition EvalBindingElement ::
  "'f evaluator \<Rightarrow> binding_element \<Rightarrow> 'f val \<Rightarrow> bool \<Rightarrow> 'f state \<Rightarrow> unit outcome \<times> 'f state" where
  "EvalBindingElement ev el val0 constant st =
     bind (if val0 = Undefined then ev (snd el) st else (Ok val0, st)) (\<lambda>val st.
       case fst el of
         Var name \<Rightarrow>
           bind (Scope_Set st name \<lparr>Item = val, Constant = constant\<rparr>) (\<lambda>_ st. (Ok (), st))
       | _ \<Rightarrow> (Err NotImplementedError, st))"

fun EvalVarDecl_loop :: "'f evaluator \<Rightarrow> bool \<Rightarrow> binding_element list \<Rightarrow> 'f state \<Rightarrow> unit outcome \<times> 'f state" where
  "EvalVarDecl_loop ev constant [] st = (Ok (), st)"
| "EvalVarDecl_loop ev constant (el # els) st =
     bind (EvalBindingElement ev el Undefined constant st) (\<lambda>_ st.
       EvalVarDecl_loop ev constant els st)"

definition EvalVarDecl :: "'f evaluator \<Rightarrow> token \<Rightarrow> binding_element list \<Rightarrow> 'f state \<Rightarrow> unit outcome \<times> 'f state" where
  "EvalVarDecl ev tt els st = EvalVarDecl_loop ev (tt = ConstToken) els st"

fun EvalBlockStmt_loop :: "'f evaluator \<Rightarrow> node list \<Rightarrow> 'f val \<Rightarrow> 'f state \<Rightarrow> 'f result" where
  "EvalBlockStmt_loop ev [] res st = (Ok res, st)"
| "EvalBlockStmt_loop ev (i # is) res st =
     bind (ev i st) (\<lambda>res st. EvalBlockStmt_loop ev is res st)"

definition EvalBlockStmt :: "'f evaluator \<Rightarrow> node list \<Rightarrow> 'f state \<Rightarrow> 'f result" where
  "EvalBlockStmt ev stmts st =
     leave_scope (EvalBlockStmt_loop ev stmts Undefined (enter_scope (Scope st) st))"

subsection \<open>Functions and calls\<close>

definition GenerateJSFunction :: "node list \<Rightarrow> binding_element list \<Rightarrow> 'f state \<Rightarrow> 'f result" where
  "GenerateJSFunction body expectedParams st = (Ok (FuncV expectedParams body (Scope st)), st)"

text \<open>
  The closure that \<open>GenerateJSFunction\<close> returns, applied to \<open>actualParams\<close>. Its deferred
  assignment restores the scope pointer that was active at the call.
\<close>

fun JSFunction_loop ::
  "'f evaluator \<Rightarrow> binding_element list \<Rightarrow> nat \<Rightarrow> 'f val list \<Rightarrow> 'f state \<Rightarrow> unit outcome \<times> 'f state" where
  "JSFunction_loop ev [] idx actualParams st = (Ok (), st)"
| "JSFunction_loop ev (el # els) idx actualParams st =
     bind (EvalBindingElement ev el
             (if idx < length actualParams then actualParams ! idx else Undefined) False st)
       (\<lambda>_ st. JSFunction_loop ev els (Suc idx) actualParams st)"

definition JSFunction ::
  "'f evaluator \<Rightarrow> binding_element list \<Rightarrow> node list \<Rightarrow> nat option \<Rightarrow> 'f val list \<Rightarrow> 'f state \<Rightarrow> 'f result" where
  "JSFunction ev expectedParams body parentScope actualParams st =
     (case (if length expectedParams < length actualParams
            then (Err (WrongNumberOfArgsError (length actualParams) (length expectedParams)),
                  enter_scope parentScope st)
            else bind (JSFunction_loop ev expectedParams 0 actualParams (enter_scope parentScope st))
                   (\<lambda>_ st. ev (BlockStmt body) st)) of
        (out, st') \<Rightarrow> (out, st'\<lparr>Scope := Scope st\<rparr>))"

definition EvalArrowFunc :: "binding_element list \<Rightarrow> node list \<Rightarrow> 'f state \<Rightarrow> 'f result" where
  "EvalArrowFunc params body st = GenerateJSFunction body params st"

definition EvalFuncDecl :: "string option \<Rightarrow> binding_element list \<Rightarrow> node list \<Rightarrow> 'f state \<Rightarrow> unit outcome \<times> 'f state" where
  "EvalFuncDecl fname params body st =
     bind (GenerateJSFunction body params st) (\<lambda>genF st.
       case fname of
         None \<Rightarrow> (Panic NilPointerDereference, st)
       | Some name \<Rightarrow>
           bind (Scope_Set st name \<lparr>Item = genF, Constant = True\<rparr>) (\<lambda>_ st. (Ok (), st)))"

text \<open>The types of the function values, as \<open>reflect.TypeOf\<close> gives them.\<close>

definition js_func_type :: func_type where
  "js_func_type = \<lparr>ins = [TIfaceSlice], variadic = True, outs = [TIface, TError]\<rparr>"

definition func_type_of :: "'f platform \<Rightarrow> 'f val \<Rightarrow> func_type option" where
  "func_type_of P v =
     (case v of
        FuncV ps body parent \<Rightarrow> Some js_func_type
      | ObjMethodV m a \<Rightarrow>
          Some \<lparr>ins = (if m = Reduce then [TIface, TIface] else [TIface]), variadic = False,
                outs = [TIface, TError]\<rparr>
      | AryMethodV m a \<Rightarrow>
          Some \<lparr>ins = (if m = Reduce then [TIface, TIface] else [TIface]), variadic = False,
                outs = [TIface, TError]\<rparr>
      | NativeV n \<Rightarrow> Some (native_type P n)
      | _ \<Rightarrow> None)"

definition AssertJSFunc :: "'f platform \<Rightarrow> 'f val \<Rightarrow> error option" where
  "AssertJSFunc P i = (if func_type_of P i = Some js_func_type then None else Some NotFunctionError)"

text \<open>
  A call \<open>iterator(...)\<close> of a value that passed \<open>AssertJSFunc\<close>: a generated closure, or
  a host function of the same type.
\<close>

definition call_iterator :: "'f platform \<Rightarrow> 'f evaluator \<Rightarrow> 'f val \<Rightarrow> 'f val list \<Rightarrow> 'f state \<Rightarrow> 'f result" where
  "call_iterator P ev iterator args st =
     (case iterator of
        FuncV ps body parent \<Rightarrow> JSFunction ev ps body parent args st
      | NativeV n \<Rightarrow> native_call P n args st
      | _ \<Rightarrow> (Err NotFunctionError, st))"

subsection \<open>The closures of EvalDotExpr\<close>

text \<open>
  \<open>range\<close> over a map visits its keys in an order chosen by the platform and reads each
  entry when it reaches it; \<open>range\<close> over a slice fixes the length at the start and reads
  each element when it reaches it. No operation of the evaluator removes a key or changes
  the length of an array.
\<close>

fun ObjReduce_loop ::
  "('f val list \<Rightarrow> 'f state \<Rightarrow> 'f result) \<Rightarrow> nat \<Rightarrow> string list \<Rightarrow> 'f val \<Rightarrow> 'f state \<Rightarrow> 'f result" where
  "ObjReduce_loop iterator a [] acc st = (Ok acc, st)"
| "ObjReduce_loop iterator a (key # keys) acc st =
     (case objects st a key of
        None \<Rightarrow> ObjReduce_loop iterator a keys acc st
      | Some val \<Rightarrow>
          bind (iterator [StringV key, val, acc] st) (\<lambda>acc st.
            ObjReduce_loop iterator a keys acc st))"

fun ObjMap_loop ::
  "'f platform \<Rightarrow> ('f val list \<Rightarrow> 'f state \<Rightarrow> 'f result) \<Rightarrow> nat \<Rightarrow> string list \<Rightarrow>
   (string \<rightharpoonup> 'f val) \<Rightarrow> 'f state \<Rightarrow> 'f result" where
  "ObjMap_loop P iterator a [] res st = new_object res st"
| "ObjMap_loop P iterator a (key # keys) res st =
     (case objects st a key of
        None \<Rightarrow> ObjMap_loop P iterator a keys res st
      | Some val \<Rightarrow>
          bind (iterator [StringV key, val] st) (\<lambda>mapped st.
            case mapped of
              ArrayV b \<Rightarrow>
                (if length (arrays st b) \<noteq> 2 then (Err NotPairError, st)
                 else ObjMap_loop P iterator a keys
                        (res(Sprint P st (arrays st b ! 0) \<mapsto> arrays st b ! 1)) st)
            | _ \<Rightarrow> (Err NotPairError, st)))"

fun ObjForEach_loop ::
  "('f val list \<Rightarrow> 'f state \<Rightarrow> 'f result) \<Rightarrow> nat \<Rightarrow> string list \<Rightarrow> 'f state \<Rightarrow> 'f result" where
  "ObjForEach_loop iterator a [] st = (Ok Undefined, st)"
| "ObjForEach_loop iterator a (key # keys) st =
     (case objects st a key of
        None \<Rightarrow> ObjForEach_loop iterator a keys st
      | Some val \<Rightarrow>
          bind (iterator [StringV key, val] st) (\<lambda>_ st. ObjForEach_loop iterator a keys st))"

fun AryReduce_loop ::
  "('f val list \<Rightarrow> 'f state \<Rightarrow> 'f result) \<Rightarrow> nat \<Rightarrow> nat list \<Rightarrow> 'f val \<Rightarrow> 'f state \<Rightarrow> 'f result" where
  "AryReduce_loop iterator a [] acc st = (Ok acc, st)"
| "AryReduce_loop iterator a (i # is) acc st =
     bind (iterator [arrays st a ! i, acc] st) (\<lambda>acc st. AryReduce_loop iterator a is acc st)"

fun AryMap_loop ::
  "('f val list \<Rightarrow> 'f state \<Rightarrow> 'f result) \<Rightarrow> nat \<Rightarrow> nat list \<Rightarrow> 'f val list \<Rightarrow> 'f state \<Rightarrow> 'f result" where
  "AryMap_loop iterator a [] res st = new_array res st"
| "AryMap_loop iterator a (i # is) res st =
     bind (iterator [arrays st a ! i] st) (\<lambda>mapped st. AryMap_loop iterator a is (res @ [mapped]) st)"

fun AryForEach_loop ::
  "('f val list \<Rightarrow> 'f state \<Rightarrow> 'f result) \<Rightarrow> nat \<Rightarrow> nat list \<Rightarrow> 'f state \<Rightarrow> 'f result" where
  "AryForEach_loop iterator a [] st = (Ok Undefined, st)"
| "AryForEach_loop iterator a (i # is) st =
     bind (iterator [arrays st a ! i] st) (\<lambda>_ st. AryForEach_loop iterator a is st)"

text \<open>
  The body of each closure. \<open>Call\<close> has checked the number of arguments against the
  closure's type, so \<open>args\<close> holds the closure's parameters in order.
\<close>

definition ObjMethod ::
  "'f platform \<Rightarrow> 'f evaluator \<Rightarrow> builtin \<Rightarrow> nat \<Rightarrow> 'f val list \<Rightarrow> 'f state \<Rightarrow> 'f result" where
  "ObjMethod P ev m a args st =
     (case AssertJSFunc P (args ! 0) of
        Some err \<Rightarrow> (Err err, st)
      | None \<Rightarrow>
          (case m of
             Reduce \<Rightarrow>
               ObjReduce_loop (call_iterator P ev (args ! 0)) a (range_keys P (objects st a)) (args ! 1) st
           | MapMethod \<Rightarrow>
               ObjMap_loop P (call_iterator P ev (args ! 0)) a (range_keys P (objects st a)) Map.empty st
           | ForEach \<Rightarrow>
               ObjForEach_loop (call_iterator P ev (args ! 0)) a (range_keys P (objects st a)) st))"

definition AryMethod ::
  "'f platform \<Rightarrow> 'f evaluator \<Rightarrow> builtin \<Rightarrow> nat \<Rightarrow> 'f val list \<Rightarrow> 'f state \<Rightarrow> 'f result" where
  "AryMethod P ev m a args st =
     (case AssertJSFunc P (args ! 0) of
        Some err \<Rightarrow> (Err err, st)
      | None \<Rightarrow>
          (case m of
             Reduce \<Rightarrow>
               AryReduce_loop (call_iterator P ev (args ! 0)) a [0..<length (arrays st a)] (args ! 1) st
           | MapMethod \<Rightarrow>
               AryMap_loop (call_iterator P ev (args ! 0)) a [0..<length (arrays st a)] [] st
           | ForEach \<Rightarrow>
               AryForEach_loop (call_iterator P ev (args ! 0)) a [0..<length (arrays st a)] st))"

definition EvalDotExpr :: "'f evaluator \<Rightarrow> node \<Rightarrow> string \<Rightarrow> 'f state \<Rightarrow> 'f result" where
  "EvalDotExpr ev X Y st =
     bind (ev X st) (\<lambda>x st.
       case x of
         ObjectV a \<Rightarrow>
           (if Y = ''reduce'' then (Ok (ObjMethodV Reduce a), st)
            else if Y = ''map'' then (Ok (ObjMethodV MapMethod a), st)
            else if Y = ''forEach'' then (Ok (ObjMethodV ForEach a), st)
            else (Ok (case objects st a Y of Some v \<Rightarrow> v | None \<Rightarrow> Undefined), st))
       | ArrayV a \<Rightarrow>
           (if Y = ''reduce'' then (Ok (AryMethodV Reduce a), st)
            else if Y = ''map'' then (Ok (AryMethodV MapMethod a), st)
            else if Y = ''forEach'' then (Ok (AryMethodV ForEach a), st)
            else (Err NotObjectError, st))
       | _ \<Rightarrow> (Err NotObjectError, st))"

subsection \<open>Call\<close>

text \<open>
  The package function \<open>Call\<close> inspects the callable by reflection and then calls it.
  A host function is called through the platform.
\<close>

definition Call :: "'f platform \<Rightarrow> 'f evaluator \<Rightarrow> 'f val \<Rightarrow> 'f val list \<Rightarrow> 'f state \<Rightarrow> 'f result" where
  "Call P ev callable iArgs st =
     (case func_type_of P callable of
        None \<Rightarrow> (Err NotCallableError, st)
      | Some refType \<Rightarrow>
          if \<not> variadic refType \<and> length (ins refType) \<noteq> length iArgs
          then (Err (WrongNumberOfArgsError (length iArgs) (length (ins refType))), st)
          else if length (outs refType) \<noteq> 2 then (Err NoReturnValueError, st)
          else if outs refType ! 0 \<noteq> TIface then (Err WrongReturnValueError, st)
          else if outs refType ! 1 \<noteq> TError then (Err WrongReturnValueError, st)
          else
            (case callable of
               FuncV ps body parent \<Rightarrow> JSFunction ev ps body parent iArgs st
             | ObjMethodV m a \<Rightarrow> ObjMethod P ev m a iArgs st
             | AryMethodV m a \<Rightarrow> AryMethod P ev m a iArgs st
             | NativeV n \<Rightarrow> native_call P n iArgs st
             | _ \<Rightarrow> (Err NotCallableError, st)))"

fun EvalCallExpr_loop :: "'f evaluator \<Rightarrow> node list \<Rightarrow> 'f val list \<Rightarrow> 'f state \<Rightarrow> 'f val list outcome \<times> 'f state" where
  "EvalCallExpr_loop ev [] args st = (Ok args, st)"
| "EvalCallExpr_loop ev (a # as) args st =
     bind (ev a st) (\<lambda>v st. EvalCallExpr_loop ev as (args @ [v]) st)"

definition EvalCallExpr :: "'f platform \<Rightarrow> 'f evaluator \<Rightarrow> node \<Rightarrow> node list \<Rightarrow> 'f state \<Rightarrow> 'f result" where
  "EvalCallExpr P ev X Args st =
     bind (ev X st) (\<lambda>callable st.
       bind (EvalCallExpr_loop ev Args [] st) (\<lambda>args st. Call P ev callable args st))"

subsection \<open>Array and object literals\<close>

text \<open>
  The slice or map under construction is local to the method until it is returned, so it
  enters the heap when the loop is done.
\<close>

fun EvalArrayExpr_loop :: "'f evaluator \<Rightarrow> node list \<Rightarrow> 'f val list \<Rightarrow> 'f state \<Rightarrow> 'f result" where
  "EvalArrayExpr_loop ev [] res st = new_array res st"
| "EvalArrayExpr_loop ev (el # els) res st =
     bind (ev el st) (\<lambda>v st. EvalArrayExpr_loop ev els (res @ [v]) st)"

definition EvalArrayExpr :: "'f evaluator \<Rightarrow> node list \<Rightarrow> 'f state \<Rightarrow> 'f result" where
  "EvalArrayExpr ev els st = EvalArrayExpr_loop ev els [] st"

fun EvalObjectExpr_loop ::
  "'f platform \<Rightarrow> 'f evaluator \<Rightarrow> ((string \<times> node) option \<times> node) list \<Rightarrow> (string \<rightharpoonup> 'f val) \<Rightarrow>
   'f state \<Rightarrow> 'f result" where
  "EvalObjectExpr_loop P ev [] res st = new_object res st"
| "EvalObjectExpr_loop P ev (prop # props) res st =
     (case fst prop of
        None \<Rightarrow> (Panic NilPointerDereference, st)
      | Some (literal, computed) \<Rightarrow>
          bind (if computed \<noteq> NilNode
                then bind (ev computed st) (\<lambda>iName st. (Ok (Sprint P st iName), st))
                else (Ok literal, st)) (\<lambda>name st.
            bind (ev (snd prop) st) (\<lambda>val st.
              EvalObjectExpr_loop P ev props (res(name \<mapsto> val)) st)))"

definition EvalObjectExpr ::
  "'f platform \<Rightarrow> 'f evaluator \<Rightarrow> ((string \<times> node) option \<times> node) list \<Rightarrow> 'f state \<Rightarrow> 'f result" where
  "EvalObjectExpr P ev props st = EvalObjectExpr_loop P ev props Map.empty st"

subsection \<open>Index expressions\<close>

text \<open>
  \<open>idx % len(v)\<close> truncates toward zero, so its sign is the sign of \<open>idx\<close>, and it panics
  on a zero length. \<open>v[idx]\<close> on a slice panics unless \<open>0 \<le> idx < len(v)\<close>. The length
  of a slice is never negative and fits an \<open>int\<close>.
\<close>

definition int_rem :: "go_int \<Rightarrow> nat \<Rightarrow> go_int outcome" where
  "int_rem idx n =
     (if n = 0 then Panic IntegerDivideByZero else Ok (word_of_int (sint idx smod int n)))"

definition slice_index :: "'a list \<Rightarrow> go_int \<Rightarrow> 'a outcome" where
  "slice_index v idx =
     (if 0 \<le> sint idx \<and> sint idx < int (length v) then Ok (v ! nat (sint idx))
      else Panic IndexOutOfRange)"

text \<open>The branch \<open>case int\<close> of \<open>EvalIndexExpr\<close> on an array \<open>v\<close>.\<close>

definition array_read :: "'f val list \<Rightarrow> go_int \<Rightarrow> 'f val outcome" where
  "array_read v idx0 =
     (case (if sint idx0 < 0 then int_rem idx0 (length v) else Ok idx0) of
        Ok idx \<Rightarrow>
          if int (length v) < sint idx then Err (IndexOutOfBoundsError idx)
          else slice_index v idx
      | Err e \<Rightarrow> Err e
      | Panic p \<Rightarrow> Panic p
      | OutOfFuel \<Rightarrow> OutOfFuel)"

definition EvalIndexExpr :: "'f platform \<Rightarrow> 'f evaluator \<Rightarrow> node \<Rightarrow> node \<Rightarrow> 'f state \<Rightarrow> 'f result" where
  "EvalIndexExpr P ev X Y st =
     bind (ev X st) (\<lambda>x st.
       bind (ev Y st) (\<lambda>y st.
         case x of
           ObjectV a \<Rightarrow>
             (Ok (case objects st a (Sprint P st y) of Some v \<Rightarrow> v | None \<Rightarrow> Undefined), st)
         | ArrayV a \<Rightarrow>
             (case y of
                IntV idx \<Rightarrow> (array_read (arrays st a) idx, st)
              | _ \<Rightarrow> (Err NonIntegerIndexError, st))
         | _ \<Rightarrow> (Err NotImplementedError, st)))"

subsection \<open>Assignment\<close>

text \<open>
  The branch \<open>case int\<close> of \<open>EvalAssignment\<close> on an array \<open>ass\<close>: the outcome is the
  array after \<open>ass[i] = y\<close>. The sum \<open>i+1\<close> wraps around.
\<close>

definition array_write :: "'f val list \<Rightarrow> go_int \<Rightarrow> 'f val \<Rightarrow> 'f val list outcome" where
  "array_write ass i0 y =
     (case (if sint i0 < 0 then int_rem i0 (length ass) else Ok i0) of
        Ok i \<Rightarrow>
          if int (length ass) < sint (i + 1) then Err (IndexOutOfBoundsError i)
          else if 0 \<le> sint i \<and> sint i < int (length ass) then Ok (ass[nat (sint i) := y])
          else Panic IndexOutOfRange
      | Err e \<Rightarrow> Err e
      | Panic p \<Rightarrow> Panic p
      | OutOfFuel \<Rightarrow> OutOfFuel)"

definition EvalAssignment :: "'f platform \<Rightarrow> 'f evaluator \<Rightarrow> node \<Rightarrow> node \<Rightarrow> 'f state \<Rightarrow> 'f result" where
  "EvalAssignment P ev X Y st =
     bind (ev Y st) (\<lambda>y st.
       case X of
         Var name \<Rightarrow>
           bind (Scope_Set st name \<lparr>Item = y, Constant = False\<rparr>) (\<lambda>err st.
             case err of Some e \<Rightarrow> (Err e, st) | None \<Rightarrow> (Ok y, st))
       | DotExpr vX vY \<Rightarrow>
           bind (ev vX st) (\<lambda>obj st.
             case obj of
               ObjectV a \<Rightarrow> (Ok y, st\<lparr>objects := (objects st)(a := (objects st a)(vY \<mapsto> y))\<rparr>)
             | _ \<Rightarrow> (Err NotObjectError, st))
       | IndexExpr vX vY \<Rightarrow>
           bind (ev vX st) (\<lambda>obj st.
             bind (ev vY st) (\<lambda>idx st.
               case obj of
                 ObjectV a \<Rightarrow>
                   (Ok y, st\<lparr>objects := (objects st)(a := (objects st a)(Sprint P st idx \<mapsto> y))\<rparr>)
               | ArrayV a \<Rightarrow>
                   (case idx of
                      IntV i \<Rightarrow>
                        (case array_write (arrays st a) i y of
                           Ok ass \<Rightarrow> (Ok y, st\<lparr>arrays := (arrays st)(a := ass)\<rparr>)
                         | Err e \<Rightarrow> (Err e, st)
                         | Panic p \<Rightarrow> (Panic p, st)
                         | OutOfFuel \<Rightarrow> (OutOfFuel, st))
                    | _ \<Rightarrow> (Err NonIntegerIndexError, st))
               | _ \<Rightarrow> (Err NotObjectError, st)))
       | _ \<Rightarrow> (Err NotImplementedError, st))"

subsection \<open>Comparison and binary expressions\<close>

definition EqEqComparison :: "'f platform \<Rightarrow> 'f val \<Rightarrow> 'f val \<Rightarrow> 'f state \<Rightarrow> 'f result" where
  "EqEqComparison P x y st = (Ok (BoolV (Sprint P st x = Sprint P st y)), st)"

datatype kind = KInvalid | KBool | KInt | KFloat64 | KString | KMap | KSlice | KFunc

definition Kind :: "'f val \<Rightarrow> kind" where
  "Kind v =
     (case v of
        Undefined \<Rightarrow> KInvalid
      | IntV i \<Rightarrow> KInt
      | FloatV f \<Rightarrow> KFloat64
      | StringV s \<Rightarrow> KString
      | BoolV b \<Rightarrow> KBool
      | ObjectV a \<Rightarrow> KMap
      | ArrayV a \<Rightarrow> KSlice
      | _ \<Rightarrow> KFunc)"

text \<open>
  \<open>EqEqEqComparison\<close>: values of one kind other than \<open>Func\<close> have one type here, and
  \<open>Type\<close> panics on the zero \<open>reflect.Value\<close> of nil. Strings reach
  \<open>reflect.DeepEqual\<close>; slices and functions are compared by \<open>Pointer\<close>.
\<close>

definition EqEqEqComparison :: "'f platform \<Rightarrow> 'f val \<Rightarrow> 'f val \<Rightarrow> 'f state \<Rightarrow> 'f result" where
  "EqEqEqComparison P x y st =
     (if Kind x \<noteq> Kind y then (Ok (BoolV False), st)
      else if Kind x = KInvalid then (Panic ReflectZeroValue, st)
      else if func_type_of P x \<noteq> func_type_of P y then (Ok (BoolV False), st)
      else
        (case x of
           BoolV a \<Rightarrow> (case y of BoolV b \<Rightarrow> (Ok (BoolV (a = b)), st) | _ \<Rightarrow> (Ok (BoolV False), st))
         | IntV a \<Rightarrow> (case y of IntV b \<Rightarrow> (Ok (BoolV (a = b)), st) | _ \<Rightarrow> (Ok (BoolV False), st))
         | FloatV a \<Rightarrow> (case y of FloatV b \<Rightarrow> (Ok (BoolV (f_eq P a b)), st) | _ \<Rightarrow> (Ok (BoolV False), st))
         | StringV a \<Rightarrow> (case y of StringV b \<Rightarrow> (Ok (BoolV (a = b)), st) | _ \<Rightarrow> (Ok (BoolV False), st))
         | ObjectV a \<Rightarrow> (case y of ObjectV b \<Rightarrow> (Ok (BoolV (a = b)), st) | _ \<Rightarrow> (Ok (BoolV False), st))
         | _ \<Rightarrow> (Ok (BoolV (pointer P st x = pointer P st y)), st)))"

definition EvalBinaryExpr :: "'f platform \<Rightarrow> 'f evaluator \<Rightarrow> token \<Rightarrow> node \<Rightarrow> node \<Rightarrow> 'f state \<Rightarrow> 'f result" where
  "EvalBinaryExpr P ev Op X Y st =
     (if Op = EqToken then EvalAssignment P ev X Y st
      else
        bind (ev X st) (\<lambda>x st.
          bind (ev Y st) (\<lambda>y st.
            case Op of
              EqEqToken \<Rightarrow> EqEqComparison P x y st
            | EqEqEqToken \<Rightarrow> EqEqEqComparison P x y st
            | AddToken \<Rightarrow> Add P x y st
            | SubToken \<Rightarrow> Sub P x y st
            | MulToken \<Rightarrow> Mul P x y st
            | _ \<Rightarrow> (Err NotImplementedError, st))))"

subsection \<open>For-in loops\<close>

text \<open>The closure \<open>iterator\<close> of \<open>EvalForInStmt\<close>: one pass of the loop body in a fresh scope.\<close>

definition ForIn_iterator ::
  "'f evaluator \<Rightarrow> binding_element \<Rightarrow> bool \<Rightarrow> node list \<Rightarrow> 'f val \<Rightarrow> 'f state \<Rightarrow> unit outcome \<times> 'f state" where
  "ForIn_iterator ev el0 constant body el st =
     leave_scope
       (bind (EvalBindingElement ev el0 el constant (enter_scope (Scope st) st)) (\<lambda>_ st.
          bind (ev (BlockStmt body) st) (\<lambda>_ st. (Ok (), st))))"

fun ForIn_obj_loop ::
  "('f val \<Rightarrow> 'f state \<Rightarrow> unit outcome \<times> 'f state) \<Rightarrow> nat \<Rightarrow> string list \<Rightarrow> 'f state \<Rightarrow> unit outcome \<times> 'f state" where
  "ForIn_obj_loop iterator a [] st = (Ok (), st)"
| "ForIn_obj_loop iterator a (k # ks) st =
     (case objects st a k of
        None \<Rightarrow> ForIn_obj_loop iterator a ks st
      | Some val \<Rightarrow> bind (iterator (StringV k) st) (\<lambda>_ st. ForIn_obj_loop iterator a ks st))"

fun ForIn_ary_loop ::
  "('f val \<Rightarrow> 'f state \<Rightarrow> unit outcome \<times> 'f state) \<Rightarrow> nat \<Rightarrow> nat list \<Rightarrow> 'f state \<Rightarrow> unit outcome \<times> 'f state" where
  "ForIn_ary_loop iterator a [] st = (Ok (), st)"
| "ForIn_ary_loop iterator a (i # is) st =
     bind (iterator (arrays st a ! i) st) (\<lambda>_ st. ForIn_ary_loop iterator a is st)"

definition EvalForInStmt ::
  "'f platform \<Rightarrow> 'f evaluator \<Rightarrow> node \<Rightarrow> node \<Rightarrow> node list \<Rightarrow> 'f state \<Rightarrow> unit outcome \<times> 'f state" where
  "EvalForInStmt P ev Init Value Body st =
     bind (ev Value st) (\<lambda>val st.
       case Init of
         VarDecl tt els \<Rightarrow>
           (if length els \<noteq> 1 then (Err NotImplementedError, st)
            else
              (case val of
                 ObjectV a \<Rightarrow>
                   ForIn_obj_loop (ForIn_iterator ev (els ! 0) (tt = ConstToken) Body) a
                     (range_keys P (objects st a)) st
               | ArrayV a \<Rightarrow>
                   ForIn_ary_loop (ForIn_iterator ev (els ! 0) (tt = ConstToken) Body) a
                     [0..<length (arrays st a)] st
               | _ \<Rightarrow> (Err NotImplementedError, st)))
       | _ \<Rightarrow> (Err NotImplementedError, st))"

subsection \<open>Eval\<close>

text \<open>
  \<open>Eval\<close> dispatches on the kind of the node. Its first argument bounds the depth of the
  nested calls of \<open>Eval\<close>; all loops of the evaluator run over finite lists, so only that
  depth can grow without bound. \<open>ThrottleEvaluation\<close> and \<open>ThrottleAllocation\<close> return
  nil and the debug print has no effect on the state; they are left out.
\<close>

fun Eval :: "'f platform \<Rightarrow> nat \<Rightarrow> node \<Rightarrow> 'f state \<Rightarrow> 'f result" where
  "Eval P 0 i st = (OutOfFuel, st)"
| "Eval P (Suc d) i st =
     (case i of
        NilNode \<Rightarrow> (Ok Undefined, st)
      | IfStmt c b e \<Rightarrow> bind (EvalIfStmt P (Eval P d) c b e st) (\<lambda>_ st. (Ok Undefined, st))
      | ReturnStmt v \<Rightarrow> EvalReturnStmt (Eval P d) v st
      | BlockStmt stmts \<Rightarrow> EvalBlockStmt (Eval P d) stmts st
      | ExprStmt v \<Rightarrow> Eval P d v st
      | VarDecl tt els \<Rightarrow> bind (EvalVarDecl (Eval P d) tt els st) (\<lambda>_ st. (Ok Undefined, st))
      | LiteralExpr tt data \<Rightarrow> EvalLiteralExpr P tt data st
      | CallExpr x args \<Rightarrow> EvalCallExpr P (Eval P d) x args st
      | Var name \<Rightarrow> EvalVar name st
      | BinaryExpr op x y \<Rightarrow> EvalBinaryExpr P (Eval P d) op x y st
      | ArrowFunc params body \<Rightarrow> EvalArrowFunc params body st
      | FuncDecl fname params body \<Rightarrow>
          bind (EvalFuncDecl fname params body st) (\<lambda>_ st. (Ok Undefined, st))
      | ObjectExpr props \<Rightarrow> EvalObjectExpr P (Eval P d) props st
      | ArrayExpr els \<Rightarrow> EvalArrayExpr (Eval P d) els st
      | DotExpr x y \<Rightarrow> EvalDotExpr (Eval P d) x y st
      | ForInStmt init v body \<Rightarrow>
          bind (EvalForInStmt P (Eval P d) init v body st) (\<lambda>_ st. (Ok Undefined, st))
      | IndexExpr x y \<Rightarrow> EvalIndexExpr P (Eval P d) x y st
      | OtherNode \<Rightarrow> (Err NotImplementedError, st))"

definition Run :: "'f platform \<Rightarrow> nat \<Rightarrow> node list \<Rightarrow> 'f state \<Rightarrow> unit outcome \<times> 'f state" where
  "Run P d ast st = bind (Eval P d (BlockStmt ast) st) (\<lambda>_ st. (Ok (), st))"

text \<open>The state after \<open>M.NewRuntime\<close>: one root scope, an empty heap, the given globals.\<close>

definition NewRuntime :: "(string \<rightharpoonup> 'f val) \<Rightarrow> 'f state" where
  "NewRuntime mglobals =
     \<lparr>Scope = Some 0, scopes = (\<lambda>_. S_New None), scope_count = 1,
      objects = (\<lambda>_. Map.empty), object_count = 0,
      arrays = (\<lambda>_. []), array_count = 0,
      Globals = Map.empty, MGlobals = mglobals\<rparr>"

section \<open>A platform for closed examples\<close>

text \<open>
  The platform of the examples below, which use neither floats, nor iteration over the
  keys of an object, nor host functions: \<open>Atoi\<close> reads the strings of decimal digits
  that fit an \<open>int\<close>, as \<open>strconv.Atoi\<close> does on them, \<open>ParseFloat\<close> fails,
  \<open>float64\<close> is the type with one value, and a slice has at most \<open>2 ^ 44\<close> elements.
\<close>

fun digits_value :: "string \<Rightarrow> nat \<Rightarrow> nat option" where
  "digits_value [] acc = Some acc"
| "digits_value (c # cs) acc =
     (if 48 \<le> (of_char c :: nat) \<and> (of_char c :: nat) \<le> 57
      then digits_value cs (10 * acc + (of_char c - 48))
      else None)"

definition example_atoi :: "string \<Rightarrow> go_int option" where
  "example_atoi s =
     (if s = [] then None
      else case digits_value s 0 of
             Some n \<Rightarrow> if n < 2 ^ 63 then Some (word_of_nat n) else None
           | None \<Rightarrow> None)"

definition example_platform :: "unit platform" where
  "example_platform =
     \<lparr>f_add = (\<lambda>a b. ()), f_sub = (\<lambda>a b. ()), f_mul = (\<lambda>a b. ()), f_div = (\<lambda>a b. ()),
      f_eq = (\<lambda>a b. True), f_of_int = (\<lambda>i. ()),
      atoi = example_atoi, parse_float = (\<lambda>s. None),
      sprint_float = (\<lambda>f. []), sprint_ref = (\<lambda>st v. []),
      range_keys = (\<lambda>m. []), pointer = (\<lambda>st v. 0), max_slice_len = 2 ^ 44,
      native_type = (\<lambda>n. js_func_type),
      native_call = (\<lambda>n args st. (Ok Undefined, st))\<rparr>"

section \<open>Notions used to state the properties\<close>

text \<open>The test \<open>found && old.Constant\<close> of \<open>S.Set\<close>: the name has a constant local binding.\<close>

definition bound_constant :: "'f S \<Rightarrow> string \<Rightarrow> bool" where
  "bound_constant s name = (case S_Get s name of Some old \<Rightarrow> Constant old | None \<Rightarrow> False)"

text \<open>Successive calls of \<open>S.Set\<close> under one name: the errors returned and the final scope.\<close>

fun Set_all :: "'f S \<Rightarrow> string \<Rightarrow> 'f Binding list \<Rightarrow> error option list \<times> 'f S" where
  "Set_all s name [] = ([], s)"
| "Set_all s name (b # bs) =
     (case S_Set s name b of
        (err, s') \<Rightarrow> (case Set_all s' name bs of (errs, s'') \<Rightarrow> (err # errs, s'')))"

text \<open>The operand pairs on which \<open>Add\<close> has a case.\<close>

definition is_number :: "'f val \<Rightarrow> bool" where
  "is_number v = (case v of IntV i \<Rightarrow> True | FloatV f \<Rightarrow> True | _ \<Rightarrow> False)"

definition is_string :: "'f val \<Rightarrow> bool" where
  "is_string v = (case v of StringV s \<Rightarrow> True | _ \<Rightarrow> False)"

definition is_array :: "'f val \<Rightarrow> bool" where
  "is_array v = (case v of ArrayV a \<Rightarrow> True | _ \<Rightarrow> False)"

definition Add_defined :: "'f val \<Rightarrow> 'f val \<Rightarrow> bool" where
  "Add_defined x y =
     (is_number x \<and> is_number y \<or> is_string x \<and> (is_number y \<or> is_string y) \<or>
      is_array x \<and> is_array y)"

subsection \<open>States and programs of the examples\<close>

text \<open>
  A runtime whose host has registered the array \<open>[0, 2, 4]\<close> as the global \<open>a\<close>, and
  the integers 3, -1 and 6 as \<open>i\<close>, \<open>j\<close> and \<open>v\<close>.
\<close>

definition array_024 :: "unit state" where
  "array_024 =
     (NewRuntime [''a'' \<mapsto> ArrayV 0, ''i'' \<mapsto> IntV 3, ''j'' \<mapsto> IntV (- 1), ''v'' \<mapsto> IntV 6])
       \<lparr>arrays := (\<lambda>_. [])(0 := [IntV 0, IntV 2, IntV 4]), array_count := Suc 0\<rparr>"

text \<open>A runtime whose global \<open>o\<close> is an object with entries under the names of the three methods.\<close>

definition obj_with_map :: "unit state" where
  "obj_with_map =
     (NewRuntime [''o'' \<mapsto> ObjectV 0])
       \<lparr>objects := (\<lambda>_. Map.empty)
          (0 := [''map'' \<mapsto> IntV 5, ''reduce'' \<mapsto> IntV 6, ''forEach'' \<mapsto> IntV 7]),
        object_count := Suc 0\<rparr>"

text \<open>
  Inside a block of a program that has declared \<open>const a = 1\<close>: the active scope 1 is
  empty and its parent, scope 0, binds \<open>a\<close> constant. The global \<open>v\<close> is 2.
\<close>

definition inner_scope :: "unit state" where
  "inner_scope =
     (NewRuntime [''v'' \<mapsto> IntV 2])
       \<lparr>Scope := Some (Suc 0),
        scopes := (\<lambda>_. S_New None)
          (0 := \<lparr>Parent = None, bindings = [''a'' \<mapsto> \<lparr>Item = IntV 1, Constant = True\<rparr>]\<rparr>,
           Suc 0 := S_New (Some 0)),
        scope_count := Suc (Suc 0)\<rparr>"

text \<open>The same program outside the block: the active scope binds \<open>a\<close> constant.\<close>

definition const_scope :: "unit state" where
  "const_scope =
     (NewRuntime [''v'' \<mapsto> IntV 2])
       \<lparr>scopes := (\<lambda>_. S_New None)
          (0 := \<lparr>Parent = None, bindings = [''a'' \<mapsto> \<lparr>Item = IntV 1, Constant = True\<rparr>]\<rparr>)\<rparr>"

text \<open>After \<open>let a = 1\<close>: the active scope binds \<open>a\<close>, not constant.\<close>

definition let_scope :: "unit state" where
  "let_scope =
     (NewRuntime [''v'' \<mapsto> IntV 2])
       \<lparr>scopes := (\<lambda>_. S_New None)
          (0 := \<lparr>Parent = None, bindings = [''a'' \<mapsto> \<lparr>Item = IntV 1, Constant = False\<rparr>]\<rparr>)\<rparr>"

text \<open>\<open>const a = 1; { a = 2; a }\<close> and \<open>const a = 1; { a = 2; }; a\<close>.\<close>

definition assign_in_block :: "node" where
  "assign_in_block =
     BlockStmt
       [VarDecl ConstToken [(Var ''a'', LiteralExpr DecimalToken ''1'')],
        BlockStmt
          [ExprStmt (BinaryExpr EqToken (Var ''a'') (LiteralExpr DecimalToken ''2'')),
           ExprStmt (Var ''a'')]]"

definition assign_in_block_then_read :: "node" where
  "assign_in_block_then_read =
     BlockStmt
       [VarDecl ConstToken [(Var ''a'', LiteralExpr DecimalToken ''1'')],
        BlockStmt [ExprStmt (BinaryExpr EqToken (Var ''a'') (LiteralExpr DecimalToken ''2''))],
        ExprStmt (Var ''a'')]"

text \<open>\<open>const a = 1; let a = 2; a\<close>.\<close>

definition redeclare_const :: "node" where
  "redeclare_const =
     BlockStmt
       [VarDecl ConstToken [(Var ''a'', LiteralExpr DecimalToken ''1'')],
        VarDecl LetToken [(Var ''a'', LiteralExpr DecimalToken ''2'')],
        ExprStmt (Var ''a'')]"



text \<open>\<open>const n = 0 - 1; [0, 2, 4] * n\<close>.\<close>

definition negative_repetition :: "node" where
  "negative_repetition =
     BlockStmt
       [VarDecl ConstToken
          [(Var ''n'', BinaryExpr SubToken (LiteralExpr DecimalToken ''0'') (LiteralExpr DecimalToken ''1''))],
        ExprStmt (BinaryExpr MulToken
                    (ArrayExpr [LiteralExpr DecimalToken ''0'', LiteralExpr DecimalToken ''2'',
                                LiteralExpr DecimalToken ''4''])
                    (Var ''n''))]"

section \<open>Basic facts\<close>

lemma bind_simps [simp]:
  "bind (Ok a, s) f = f a s"
  "bind (Err e, s) f = (Err e, s)"
  "bind (Panic p, s) f = (Panic p, s)"
  "bind (OutOfFuel, s) f = (OutOfFuel, s)"
  by (simp_all add: bind_def)

lemma bind_assoc: "bind (bind m f) g = bind m (\<lambda>a s. bind (f a s) g)"
  by (simp add: bind_def split: prod.splits outcome.splits)

lemma bind_return: "bind m (\<lambda>a s. (Ok a, s)) = m"
  by (simp add: bind_def split: prod.splits outcome.splits)

text \<open>Evaluation order for the simplifier: the first computation before its continuation.\<close>

lemma bind_weak_cong: "m = m' \<Longrightarrow> bind m f = bind m' f"
  by simp

lemmas Eval_numeral = Eval.simps(2) [of _ "pred_numeral k", folded numeral_eq_Suc] for k
lemmas Eval_1 = Eval.simps(2) [of _ 0, folded One_nat_def]

lemmas eval_defs =
  EvalReturnStmt_def EvalBlockStmt_def EvalVarDecl_def EvalBindingElement_def
  EvalLiteralExpr_def EvalIndexExpr_def EvalArrayExpr_def EvalBinaryExpr_def EvalAssignment_def
  EvalVar_def EvalCallExpr_def EvalFuncDecl_def GenerateJSFunction_def JSFunction_def Call_def
  func_type_of_def js_func_type_def Lookup_def enter_scope_def leave_scope_def Scope_Set_def
  S_Set_def S_Get_def S_New_def NewRuntime_def new_array_def array_read_def array_write_def
  slice_index_def int_rem_def make_slice_def example_platform_def example_atoi_def
  Sub_def Add_def Mul_def

declare Mul_string_loop.simps [simp del]
declare Mul_array_loop.simps [simp del]

section \<open>The 64-bit integers\<close>

lemma sint_of_int_64:
  "- (2 ^ 63) \<le> k \<Longrightarrow> k < 2 ^ 63 \<Longrightarrow> sint (word_of_int k :: go_int) = k"
  by (simp add: signed_of_int signed_take_bit_int_eq_self)

lemma sint_of_nat_64:
  "n < 2 ^ 63 \<Longrightarrow> sint (word_of_nat n :: go_int) = int n"
proof -
  assume "n < 2 ^ 63"
  then have "int n < 2 ^ 63" by (simp add: of_nat_less_iff [of n "2 ^ 63", where ?'a = int, simplified])
  then have "sint (word_of_int (int n) :: go_int) = int n"
    by (intro sint_of_int_64) simp_all
  then show ?thesis by simp
qed

lemma sint_succ_64:
  "sint (i :: go_int) < 2 ^ 63 - 1 \<Longrightarrow> sint (i + 1) = sint i + 1"
proof -
  assume a: "sint i < 2 ^ 63 - 1"
  have b: "- (2 ^ 63) \<le> sint i"
    using sint_ge [of i] by simp
  have "sint (i + 1) = signed_take_bit 63 (sint i + 1)"
    by (simp add: sint_word_ariths)
  also have "\<dots> = sint i + 1"
    using a b by (intro signed_take_bit_int_eq_self) simp_all
  finally show ?thesis .
qed

lemma sint_max_succ_64:
  assumes "sint (i :: go_int) = 2 ^ 63 - 1"
  shows "sint (i + 1) = - (2 ^ 63)"
proof -
  have "sint (i + 1) = signed_take_bit 63 (sint i + 1)"
    by (simp add: sint_word_ariths)
  also have "\<dots> = signed_take_bit 63 (2 ^ 63 :: int)"
    using assms by simp
  also have "\<dots> = - (2 ^ 63)"
    by (simp add: signed_take_bit_eq_take_bit_minus take_bit_eq_mod bit_iff_odd)
  finally show ?thesis .
qed

lemma sint_mult_64:
  fixes a b :: go_int
  assumes "- (2 ^ 63) \<le> sint a * sint b" and "sint a * sint b < 2 ^ 63"
  shows "sint (a * b) = sint a * sint b"
proof -
  have "sint (a * b) = signed_take_bit 63 (sint a * sint b)"
    by (simp add: sint_word_ariths)
  also have "\<dots> = sint a * sint b"
    using assms by (intro signed_take_bit_int_eq_self) simp_all
  finally show ?thesis .
qed

lemma smod_negative:
  fixes k n :: int
  assumes "k < 0" and "0 < n"
  shows "k smod n = - ((- k) mod n)"
  using assms by (simp add: signed_modulo_int_def)

section \<open>Index access on arrays\<close>

text \<open>
  What the two branches compute, for an array shorter than \<open>2 ^ 63\<close>: the read panics on
  an index equal to the length, the write on the largest \<open>int\<close>, and both panic on a
  negative index that the length does not divide and on a negative index into an empty array.
\<close>

lemma array_read_cases:
  assumes "length v < 2 ^ 63"
  shows "array_read v idx =
     (if sint idx < 0 then
        (if v = [] then Panic IntegerDivideByZero
         else if int (length v) dvd sint idx then Ok (v ! 0)
         else Panic IndexOutOfRange)
      else if int (length v) < sint idx then Err (IndexOutOfBoundsError idx)
      else if sint idx = int (length v) then Panic IndexOutOfRange
      else Ok (v ! nat (sint idx)))"
proof (cases "sint idx < 0")
  case False
  then show ?thesis
    by (auto simp: array_read_def slice_index_def)
next
  case neg: True
  show ?thesis
  proof (cases "v = []")
    case True
    with neg show ?thesis by (simp add: array_read_def int_rem_def)
  next
    case False
    let ?n = "int (length v)"
    let ?r = "sint idx smod ?n"
    have n: "0 < ?n" using False by simp
    have r: "?r = - ((- sint idx) mod ?n)"
      using neg n by (rule smod_negative)
    have lo: "- ?n < ?r" and hi: "?r \<le> 0"
      using n by (simp_all add: r)
    have n63: "?n < 2 ^ 63"
      using assms by (simp add: of_nat_less_iff [of "length v" "2 ^ 63", where ?'a = int, simplified])
    have s: "sint (word_of_int ?r :: go_int) = ?r"
      using lo hi n63 by (intro sint_of_int_64) simp_all
    show ?thesis
    proof (cases "?n dvd sint idx")
      case True
      then have "?r = 0" by (simp add: r dvd_eq_mod_eq_0 [symmetric])
      with neg False True show ?thesis
        by (simp add: array_read_def int_rem_def slice_index_def)
    next
      case nd: False
      then have "?r \<noteq> 0" by (simp add: r dvd_eq_mod_eq_0 [symmetric])
      with hi have "?r < 0" by simp
      with neg False nd s n show ?thesis
        by (simp add: array_read_def int_rem_def slice_index_def)
    qed
  qed
qed


lemma array_write_cases:
  assumes "length ass < 2 ^ 63"
  shows "array_write ass i y =
     (if sint i < 0 then
        (if ass = [] then Panic IntegerDivideByZero
         else if int (length ass) dvd sint i then Ok (ass[0 := y])
         else Panic IndexOutOfRange)
      else if sint i = 2 ^ 63 - 1 then Panic IndexOutOfRange
      else if int (length ass) \<le> sint i then Err (IndexOutOfBoundsError i)
      else Ok (ass[nat (sint i) := y]))"
proof -
  let ?n = "int (length ass)"
  have n63: "?n < 2 ^ 63"
    using assms by (simp add: of_nat_less_iff [of "length ass" "2 ^ 63", where ?'a = int, simplified])
  show ?thesis
  proof (cases "sint i < 0")
    case False
    show ?thesis
    proof (cases "sint i = 2 ^ 63 - 1")
      case True
      then have "sint (i + 1) = - (2 ^ 63)" by (rule sint_max_succ_64)
      with True False n63 show ?thesis
        by (simp add: array_write_def)
    next
      case nm: False
      have "sint i < 2 ^ 63" using sint_lt [of i] by simp
      with nm have "sint i < 2 ^ 63 - 1" by simp
      then have "sint (i + 1) = sint i + 1" by (rule sint_succ_64)
      with False nm show ?thesis
        by (auto simp: array_write_def)
    qed
  next
    case neg: True
    show ?thesis
    proof (cases "ass = []")
      case True
      with neg show ?thesis by (simp add: array_write_def int_rem_def)
    next
      case False
      let ?r = "sint i smod ?n"
      have n: "0 < ?n" using False by simp
      have r: "?r = - ((- sint i) mod ?n)"
        using neg n by (rule smod_negative)
      have lo: "- ?n < ?r" and hi: "?r \<le> 0"
        using n by (simp_all add: r)
      have s: "sint (word_of_int ?r :: go_int) = ?r"
        using lo hi n63 by (intro sint_of_int_64) simp_all
      have "sint (word_of_int ?r :: go_int) < 2 ^ 63 - 1"
        using s hi by simp
      then have s1: "sint (word_of_int ?r + 1 :: go_int) = ?r + 1"
        using s by (simp add: sint_succ_64)
      show ?thesis
      proof (cases "?n dvd sint i")
        case True
        then have "?r = 0" by (simp add: r dvd_eq_mod_eq_0 [symmetric])
        with neg False True n show ?thesis
          by (simp add: array_write_def int_rem_def)
      next
        case nd: False
        then have "?r \<noteq> 0" by (simp add: r dvd_eq_mod_eq_0 [symmetric])
        with hi have "?r < 0" by simp
        with neg False nd s s1 n show ?thesis
          by (simp add: array_write_def int_rem_def)
      qed
    qed
  qed
qed

lemma array_read_in_range:
  "0 \<le> sint idx \<Longrightarrow> sint idx < int (length v) \<Longrightarrow> array_read v idx = Ok (v ! nat (sint idx))"
  by (simp add: array_read_def slice_index_def)

lemma array_read_above_length:
  "int (length v) < sint idx \<Longrightarrow> array_read v idx = Err (IndexOutOfBoundsError idx)"
  by (simp add: array_read_def)

text \<open>
  C1. The program \<open>const a = [0, 2, 4]; a[3]\<close> panics: the read passes the test
  \<open>idx > len(v)\<close> and fails in \<open>v[idx]\<close>. So does the read \<open>a[i]\<close> with the array and
  the index 3 in globals, where the write \<open>a[i] = v\<close> returns the index-out-of-bounds
  error. The index -1 is replaced by \<open>-1 % 3 = -1\<close>, passes the test of the read and the
  test of the write, and panics in both.
\<close>

theorem C1_index_bounds:
  "fst (Eval example_platform 4
          (BlockStmt
             [VarDecl ConstToken
                [(Var ''a'',
                  ArrayExpr [LiteralExpr DecimalToken ''0'', LiteralExpr DecimalToken ''2'',
                             LiteralExpr DecimalToken ''4''])],
              ExprStmt (IndexExpr (Var ''a'') (LiteralExpr DecimalToken ''3''))])
          (NewRuntime Map.empty)) = Panic IndexOutOfRange \<and>
   Eval example_platform 2 (IndexExpr (Var ''a'') (Var ''i'')) array_024 =
     (Panic IndexOutOfRange, array_024) \<and>
   Eval example_platform 3 (BinaryExpr EqToken (IndexExpr (Var ''a'') (Var ''i'')) (Var ''v''))
     array_024 = (Err (IndexOutOfBoundsError 3), array_024) \<and>
   Eval example_platform 2 (IndexExpr (Var ''a'') (Var ''j'')) array_024 =
     (Panic IndexOutOfRange, array_024) \<and>
   Eval example_platform 3 (BinaryExpr EqToken (IndexExpr (Var ''a'') (Var ''j'')) (Var ''v''))
     array_024 = (Panic IndexOutOfRange, array_024)"
  by (simp add: Eval_numeral Eval_1 eval_defs array_024_def signed_modulo_int_def
        cong: bind_weak_cong)

section \<open>Assignment to a name\<close>

lemma Scope_Set_eq:
  "Scope st = Some a \<Longrightarrow>
   Scope_Set st name b =
     (if bound_constant (scopes st a) name then (Ok (Some (MutatingConstantError name)), st)
      else (Ok None,
            st\<lparr>scopes := (scopes st)
                 (a := (scopes st a)\<lparr>bindings := (bindings (scopes st a))(name \<mapsto> b)\<rparr>)\<rparr>))"
  by (simp add: Scope_Set_def S_Set_def bound_constant_def S_Get_def)

text \<open>
  C2, as the code has it. An assignment \<open>x = v\<close> calls \<open>Set\<close> on the active scope and
  on no other: it fails with the constant-mutation error when the active scope itself
  binds \<open>x\<close> constant, and otherwise binds \<open>x\<close>, not constant, in the active scope,
  leaving every other scope as it was.
\<close>

theorem C2_assignment:
  assumes "ev Y st = (Ok y, st1)" and "Scope st1 = Some a"
  shows "EvalAssignment P ev (Var name) Y st =
     (if bound_constant (scopes st1 a) name then (Err (MutatingConstantError name), st1)
      else (Ok y,
            st1\<lparr>scopes := (scopes st1)
                  (a := (scopes st1 a)
                     \<lparr>bindings := (bindings (scopes st1 a))(name \<mapsto> \<lparr>Item = y, Constant = False\<rparr>)\<rparr>)\<rparr>))"
  using assms by (simp add: EvalAssignment_def Scope_Set_eq)

theorem C2_assignment_witness:
  "Eval example_platform (Suc 0) (Var ''v'') inner_scope = (Ok (IntV 2), inner_scope) \<and>
   Scope inner_scope = Some (Suc 0) \<and>
   bound_constant (scopes inner_scope 0) ''a'' \<and>
   \<not> bound_constant (scopes inner_scope (Suc 0)) ''a'' \<and>
   EvalAssignment example_platform (Eval example_platform (Suc 0)) (Var ''a'') (Var ''v'') inner_scope =
     (Ok (IntV 2),
      inner_scope\<lparr>scopes := (scopes inner_scope)
        (Suc 0 := \<lparr>Parent = Some 0, bindings = [''a'' \<mapsto> \<lparr>Item = IntV 2, Constant = False\<rparr>]\<rparr>)\<rparr>)"
proof -
  have h1: "Eval example_platform (Suc 0) (Var ''v'') inner_scope = (Ok (IntV 2), inner_scope)"
    by (simp add: eval_defs inner_scope_def)
  have h2: "Scope inner_scope = Some (Suc 0)"
    by (simp add: inner_scope_def)
  show ?thesis
    using h1 h2
      C2_assignment [where ev = "Eval example_platform (Suc 0)" and Y = "Var ''v''"
        and st = inner_scope and P = example_platform and name = "''a''", OF h1 h2]
    by (simp add: inner_scope_def bound_constant_def S_Get_def S_New_def)
qed

text \<open>
  The claim as stated fails: after \<open>const a = 1\<close>, the assignment \<open>a = 2\<close> inside a
  block returns no error and \<open>a\<close> reads 2 in the block; after the block \<open>a\<close> reads 1.
\<close>

theorem C2_counterexample:
  "fst (Eval example_platform 6 assign_in_block (NewRuntime Map.empty)) = Ok (IntV 2) \<and>
   fst (Eval example_platform 6 assign_in_block_then_read (NewRuntime Map.empty)) = Ok (IntV 1)"
  by (simp add: Eval_numeral Eval_1 eval_defs assign_in_block_def assign_in_block_then_read_def
        cong: bind_weak_cong)

section \<open>Return statements and blocks\<close>

lemma EvalBlockStmt_loop_Nil: "EvalBlockStmt_loop ev [] = (\<lambda>res st. (Ok res, st))"
  by (intro ext) simp

lemma EvalBlockStmt_loop_Cons:
  "EvalBlockStmt_loop ev (i # is) = (\<lambda>res st. bind (ev i st) (EvalBlockStmt_loop ev is))"
  by (intro ext) simp

lemma EvalBlockStmt_loop_append:
  "EvalBlockStmt_loop ev (xs @ ys) res st =
     bind (EvalBlockStmt_loop ev xs res st) (EvalBlockStmt_loop ev ys)"
proof (induction xs arbitrary: res st)
  case Nil
  show ?case by simp
next
  case (Cons x xs)
  have IH: "EvalBlockStmt_loop ev (xs @ ys) =
              (\<lambda>res st. bind (EvalBlockStmt_loop ev xs res st) (EvalBlockStmt_loop ev ys))"
    by (intro ext) (rule Cons.IH)
  show ?case
    by (simp add: IH bind_assoc)
qed

text \<open>
  C3. A return statement is evaluated as its operand is: same value, same state, and no
  other outcome. The loop of a block that reaches a return statement goes on with the
  statements after it, which replace its value when there are any. The result of a block
  is \<open>Undefined\<close> when it has no statement, and otherwise what its last statement
  evaluates to, once the statements before it have been evaluated without error.
\<close>

theorem C3_return_and_block:
  "Eval P (Suc d) (ReturnStmt v) st = Eval P d v st \<and>
   EvalBlockStmt_loop ev (pre @ ReturnStmt v # post) res st =
     bind (EvalBlockStmt_loop ev pre res st) (\<lambda>_ st.
       bind (ev (ReturnStmt v) st) (\<lambda>r st. EvalBlockStmt_loop ev post r st)) \<and>
   EvalBlockStmt ev [] st = leave_scope (Ok Undefined, enter_scope (Scope st) st) \<and>
   EvalBlockStmt ev (stmts @ [s]) st =
     leave_scope
       (bind (EvalBlockStmt_loop ev stmts Undefined (enter_scope (Scope st) st)) (\<lambda>_ st. ev s st))"
  by (simp add: EvalReturnStmt_def EvalBlockStmt_def EvalBlockStmt_loop_append
        EvalBlockStmt_loop_Cons EvalBlockStmt_loop_Nil bind_return)

text \<open>\<open>{ return 1; 2 }\<close> evaluates to 2.\<close>

lemma return_then_statement:
  "fst (Eval example_platform 4
          (BlockStmt [ReturnStmt (LiteralExpr DecimalToken ''1''),
                      ExprStmt (LiteralExpr DecimalToken ''2'')])
          (NewRuntime Map.empty)) = Ok (IntV 2)"
  by (simp add: Eval_numeral Eval_1 eval_defs cong: bind_weak_cong)

section \<open>Division\<close>

lemma EvalBinaryExpr_DivToken:
  "EvalBinaryExpr P ev DivToken X Y st =
     bind (ev X st) (\<lambda>x st. bind (ev Y st) (\<lambda>y st. (Err NotImplementedError, st)))"
  by (simp add: EvalBinaryExpr_def)

lemma Div_ints:
  "Div P (IntV a) (IntV b) st =
     (if b = 0 then (Panic IntegerDivideByZero, st)
      else (Ok (IntV (word_of_int (sint a sdiv sint b))), st))"
  by (simp add: Div_def int_quo_def)

lemma Div_truncates_toward_zero:
  "Div P (IntV (- 7)) (IntV 2) st = (Ok (IntV (- 3)), st)"
  by (simp add: Div_ints signed_divide_int_def)

lemma Div_floats:
  "Div P (IntV a) (FloatV g) st = (Ok (FloatV (f_div P (f_of_int P a) g)), st)"
  "Div P (FloatV f) (IntV b) st = (Ok (FloatV (f_div P f (f_of_int P b))), st)"
  "Div P (FloatV f) (FloatV g) st = (Ok (FloatV (f_div P f g)), st)"
  by (simp_all add: Div_def)

lemma Div_undefined:
  "\<not> (is_number x \<and> is_number y) \<Longrightarrow> Div P x y st = (Err BinaryOpNotImplementedError, st)"
  by (cases x; cases y) (simp_all add: Div_def is_number_def)

text \<open>
  C4. \<open>EvalBinaryExpr\<close> has no case for the token of \<open>/\<close>: the expression \<open>7 / 2\<close>
  evaluates to the error for constructs that are not implemented. The function \<open>Div\<close>,
  which no method calls, gives 3 on the same operands.
\<close>

theorem C4_division_not_dispatched:
  "Eval example_platform 2
     (BinaryExpr DivToken (LiteralExpr DecimalToken ''7'') (LiteralExpr DecimalToken ''2''))
     (NewRuntime Map.empty) = (Err NotImplementedError, NewRuntime Map.empty) \<and>
   Div example_platform (IntV 7) (IntV 2) (NewRuntime Map.empty) =
     (Ok (IntV 3), NewRuntime Map.empty)"
  by (simp add: Eval_numeral Eval_1 EvalBinaryExpr_DivToken EvalLiteralExpr_def
        example_platform_def example_atoi_def Div_ints signed_divide_int_def
        cong: bind_weak_cong)

section \<open>Addition\<close>

lemma Add_numbers:
  "Add P (IntV a) (IntV b) st = (Ok (IntV (a + b)), st)"
  "Add P (IntV a) (FloatV g) st = (Ok (FloatV (f_add P (f_of_int P a) g)), st)"
  "Add P (FloatV f) (IntV b) st = (Ok (FloatV (f_add P f (f_of_int P b))), st)"
  "Add P (FloatV f) (FloatV g) st = (Ok (FloatV (f_add P f g)), st)"
  by (simp_all add: Add_def)

lemma Add_string:
  "is_number y \<or> is_string y \<Longrightarrow> Add P (StringV s) y st = (Ok (StringV (s @ Sprint P st y)), st)"
  by (cases y) (simp_all add: Add_def is_number_def is_string_def)

lemma Add_arrays:
  "Add P (ArrayV xa) (ArrayV ya) st =
     (Ok (ArrayV (array_count st)),
      st\<lparr>arrays := (arrays st)(array_count st := arrays st xa @ arrays st ya),
         array_count := Suc (array_count st)\<rparr>)"
  by (simp add: Add_def new_array_def)

lemma Add_undefined:
  "\<not> Add_defined x y \<Longrightarrow> Add P x y st = (Err BinaryOpNotImplementedError, st)"
  by (cases x; cases y)
    (simp_all add: Add_def Add_defined_def is_number_def is_string_def is_array_def)

text \<open>
  C5, as the code has it. Two integers add to an integer, and two numbers of which one is
  a float to a float. A string followed by an integer, a float or a string gives the
  string followed by the rendering of the other operand, which for a string is the string
  itself. Two arrays give a newly allocated array: the elements of the left then those of
  the right. Every other pair of operands, a string followed by a value of another kind
  among them, gives the error for unsupported operand types.
\<close>

theorem C5_Add:
  "Add P (IntV a) (IntV b) st = (Ok (IntV (a + b)), st) \<and>
   Add P (IntV a) (FloatV g) st = (Ok (FloatV (f_add P (f_of_int P a) g)), st) \<and>
   Add P (FloatV f) (IntV b) st = (Ok (FloatV (f_add P f (f_of_int P b))), st) \<and>
   Add P (FloatV f) (FloatV g) st = (Ok (FloatV (f_add P f g)), st) \<and>
   (is_number y \<or> is_string y \<longrightarrow>
      Add P (StringV s) y st = (Ok (StringV (s @ Sprint P st y)), st)) \<and>
   Add P (StringV s) (StringV t) st = (Ok (StringV (s @ t)), st) \<and>
   Add P (ArrayV xa) (ArrayV ya) st =
     (Ok (ArrayV (array_count st)),
      st\<lparr>arrays := (arrays st)(array_count st := arrays st xa @ arrays st ya),
         array_count := Suc (array_count st)\<rparr>) \<and>
   (\<not> Add_defined x z \<longrightarrow> Add P x z st = (Err BinaryOpNotImplementedError, st))"
  using Add_string [of y P s st] Add_undefined [of x z P st]
  by (simp add: Add_numbers Add_arrays) (simp add: Add_def Sprint_def)

theorem C5_Add_witness:
  "is_number (IntV 2 :: unit val) \<and>
   Add example_platform (StringV ''n='') (IntV 2) (NewRuntime Map.empty) =
     (Ok (StringV ''n=2''), NewRuntime Map.empty) \<and>
   \<not> Add_defined (IntV 1 :: unit val) (StringV ''a'') \<and>
   Add example_platform (IntV 1) (StringV ''a'') (NewRuntime Map.empty) =
     (Err BinaryOpNotImplementedError, NewRuntime Map.empty)"
  using C5_Add [where P = example_platform and st = "NewRuntime Map.empty" and y = "IntV 2"
                  and s = "''n=''" and x = "IntV 1" and z = "StringV ''a''"]
  by (simp add: is_number_def is_string_def is_array_def Add_defined_def Sprint_def sprint_int_def)

text \<open>The claim as stated fails: a string followed by a boolean is not concatenated.\<close>

theorem C5_Add_counterexample:
  "Add example_platform (StringV ''a'') (BoolV True) (NewRuntime Map.empty) =
     (Err BinaryOpNotImplementedError, NewRuntime Map.empty) \<and>
   Add example_platform (StringV ''a'') (BoolV True) (NewRuntime Map.empty) \<noteq>
     (Ok (StringV (''a'' @ Sprint example_platform (NewRuntime Map.empty) (BoolV True))),
      NewRuntime Map.empty)"
  by (simp add: Add_def)

section \<open>Multiplication of strings and arrays\<close>

lemma Mul_string_loop_eq:
  "Mul_string_loop i yv res xv = res @ concat (replicate (nat (yv - i)) xv)"
proof (induction i yv res xv rule: Mul_string_loop.induct)
  case (1 i yv res xv)
  show ?case
  proof (cases "i < yv")
    case True
    then have "nat (yv - i) = Suc (nat (yv - (i + 1)))"
      by simp
    with True "1.IH" show ?thesis
      by (subst Mul_string_loop.simps) simp
  next
    case False
    then show ?thesis
      by (subst Mul_string_loop.simps) simp
  qed
qed

lemma Mul_string:
  "Mul P (StringV s) (IntV n) st = (Ok (StringV (concat (replicate (nat (sint n)) s))), st)"
  by (simp add: Mul_def Mul_string_loop_eq)

lemma copy_from_block:
  assumes "sint off = int k" and "k + length src \<le> length res"
  shows "copy_from res off src = Ok (take k res @ src @ drop (k + length src) res)"
  using assms by (auto simp add: copy_from_def Let_def min_def)

lemma Mul_array_loop_eq:
  assumes "0 \<le> i" and "i \<le> yv" and "length res = length xv * nat yv"
    and "int (length xv) * yv < 2 ^ 63" and "yv < 2 ^ 63"
  shows "Mul_array_loop i yv res xv =
           Ok (take (nat i * length xv) res @ concat (replicate (nat (yv - i)) xv))"
  using assms
proof (induction i yv res xv rule: Mul_array_loop.induct)
  case (1 i yv res xv)
  let ?len = "length xv"
  let ?k = "nat i * ?len"
  show ?case
  proof (cases "i < yv")
    case False
    with "1.prems" have "i = yv" by simp
    with "1.prems" show ?thesis
      by (subst Mul_array_loop.simps) (simp add: mult.commute)
  next
    case True
    have i1: "nat (i + 1) = Suc (nat i)"
      using "1.prems"(1) by simp
    have le: "nat (i + 1) \<le> nat yv"
      using True "1.prems"(1) by simp
    have fits: "?k + ?len \<le> length res"
    proof -
      have "?k + ?len = nat (i + 1) * ?len" by (simp add: i1)
      also have "\<dots> \<le> nat yv * ?len" using le by (rule mult_le_mono1)
      finally show ?thesis using "1.prems"(3) by (simp add: mult.commute)
    qed
    have bound: "int ?len * i < 2 ^ 63"
    proof -
      have "int ?len * i \<le> int ?len * yv"
        using True by (intro mult_left_mono) simp_all
      with "1.prems"(4) show ?thesis by simp
    qed
    have l: "?len < 2 ^ 63"
    proof -
      have "1 \<le> yv" using True "1.prems"(1) by simp
      then have "int ?len * 1 \<le> int ?len * yv"
        by (intro mult_left_mono) simp_all
      with "1.prems"(4) have "int ?len < 2 ^ 63" by simp
      then show ?thesis by simp
    qed
    have ilt: "i < 2 ^ 63"
      using True "1.prems"(5) by simp
    have si: "sint (word_of_int i :: go_int) = i"
      using "1.prems"(1) ilt by (intro sint_of_int_64) simp_all
    have sl: "sint (word_of_nat ?len :: go_int) = int ?len"
      using l by (rule sint_of_nat_64)
    have nn: "- (2 ^ 63) \<le> i * int ?len"
    proof -
      have "0 \<le> i * int ?len" using "1.prems"(1) by simp
      then show ?thesis by simp
    qed
    have "sint (word_of_int i * word_of_nat ?len :: go_int) = i * int ?len"
      using bound nn by (subst sint_mult_64) (simp_all add: si sl mult.commute)
    then have off: "sint (word_of_int i * word_of_nat ?len :: go_int) = int ?k"
      using "1.prems"(1) by (simp add: nat_mult_distrib)
    let ?res' = "take ?k res @ xv @ drop (?k + ?len) res"
    have copy: "copy_from res (word_of_int i * word_of_nat ?len) xv = Ok ?res'"
      using off fits by (rule copy_from_block)
    have len': "length ?res' = ?len * nat yv"
      using fits "1.prems"(3) by (auto simp add: min_def)
    have IH: "Mul_array_loop (i + 1) yv ?res' xv =
                Ok (take (nat (i + 1) * ?len) ?res' @ concat (replicate (nat (yv - (i + 1))) xv))"
      using True "1.prems"(1,4,5) len' by (intro "1.IH" [OF True copy]) simp_all
    have tk: "take (nat (i + 1) * ?len) ?res' = take ?k res @ xv"
      using fits by (simp add: i1)
    have rep: "nat (yv - i) = Suc (nat (yv - (i + 1)))"
      using True by simp
    have "Mul_array_loop i yv res xv = Mul_array_loop (i + 1) yv ?res' xv"
      using True copy by (subst Mul_array_loop.simps) simp
    also have "\<dots> = Ok (take (nat (i + 1) * ?len) ?res' @ concat (replicate (nat (yv - (i + 1))) xv))"
      by (rule IH)
    also have "\<dots> = Ok ((take ?k res @ xv) @ concat (replicate (nat (yv - (i + 1))) xv))"
      by (simp only: tk)
    also have "\<dots> = Ok (take ?k res @ concat (replicate (nat (yv - i)) xv))"
      by (simp add: rep)
    finally show ?thesis .
  qed
qed

lemma Mul_length_sint:
  assumes "0 \<le> sint n" and "int len * sint n < 2 ^ 63"
  shows "sint (word_of_nat len * n :: go_int) = int len * sint n"
proof (cases "sint n = 0")
  case True
  then have "n = 0" by (metis signed_word_eqI sint_0)
  then show ?thesis by simp
next
  case False
  with assms(1) have "1 \<le> sint n" by simp
  then have "int len * 1 \<le> int len * sint n"
    by (intro mult_left_mono) simp_all
  with assms(2) have "int len < 2 ^ 63" by simp
  then have "len < 2 ^ 63" by simp
  then have sl: "sint (word_of_nat len :: go_int) = int len"
    by (rule sint_of_nat_64)
  have nn: "- (2 ^ 63) \<le> int len * sint n"
  proof -
    have "0 \<le> int len * sint n" using assms(1) by simp
    then show ?thesis by simp
  qed
  show ?thesis
    using assms(2) nn by (subst sint_mult_64) (simp_all add: sl)
qed

lemma Mul_array:
  assumes "0 \<le> sint n" and "int (length (arrays st a)) * sint n < 2 ^ 63"
    and "int (length (arrays st a)) * sint n \<le> int (max_slice_len P)"
  shows "Mul P (ArrayV a) (IntV n) st =
           new_array (concat (replicate (nat (sint n)) (arrays st a))) st"
proof -
  let ?xv = "arrays st a"
  let ?len = "length ?xv"
  have n63: "sint n < 2 ^ 63" using sint_lt [of n] by simp
  have prod: "sint (word_of_nat ?len * n :: go_int) = int ?len * sint n"
    using assms(1,2) by (rule Mul_length_sint)
  have "0 \<le> int ?len * sint n"
    using assms(1) by simp
  then have mk: "make_slice P (word_of_nat ?len * n) = Ok (replicate (?len * nat (sint n)) Undefined)"
    using assms(3) by (simp add: make_slice_def prod nat_mult_distrib linorder_not_less [symmetric])
  have "Mul_array_loop 0 (sint n) (replicate (?len * nat (sint n)) Undefined) ?xv =
          Ok (take (nat 0 * ?len) (replicate (?len * nat (sint n)) Undefined) @
              concat (replicate (nat (sint n - 0)) ?xv))"
    using assms(1,2) n63 by (intro Mul_array_loop_eq) simp_all
  then have loop: "Mul_array_loop 0 (sint n) (replicate (?len * nat (sint n)) Undefined) ?xv =
          Ok (concat (replicate (nat (sint n)) ?xv))"
    by simp
  show ?thesis
    by (simp add: Mul_def Let_def mk loop)
qed

text \<open>A repetition longer than the allocator allows is refused by \<open>make\<close>.\<close>

lemma Mul_array_above_limit:
  assumes "0 \<le> sint n" and "int (length (arrays st a)) * sint n < 2 ^ 63"
    and "int (max_slice_len P) < int (length (arrays st a)) * sint n"
  shows "Mul P (ArrayV a) (IntV n) st = (Panic MakeSliceLenOutOfRange, st)"
proof -
  have "sint (word_of_nat (length (arrays st a)) * n :: go_int) = int (length (arrays st a)) * sint n"
    using assms(1,2) by (rule Mul_length_sint)
  then have "make_slice P (word_of_nat (length (arrays st a)) * n) = Panic MakeSliceLenOutOfRange"
    using assms(3) by (simp add: make_slice_def)
  then show ?thesis
    by (simp add: Mul_def Let_def)
qed

text \<open>
  C6. On the array \<open>[0, 2, 4]\<close> and the integer -1, \<open>Mul\<close> asks \<open>make\<close> for a slice of
  length -3, which panics: so for the tree that multiplies the array literal by the
  subtraction \<open>0 - 1\<close>, for the two values in globals, and for the program
  \<open>const n = 0 - 1; [0, 2, 4] * n\<close>. On a string every count gives the repetition, empty
  for a count that is not positive (lemma \<open>Mul_string\<close>); on an array every count from 0
  on gives the repetition in a new array, as long as its length fits an \<open>int\<close> and is
  within the allocator's limit (lemma \<open>Mul_array\<close>), and panics above that limit (lemma
  \<open>Mul_array_above_limit\<close>).
\<close>

theorem C6_array_times_negative:
  "fst (Eval example_platform 3
          (BinaryExpr MulToken
             (ArrayExpr [LiteralExpr DecimalToken ''0'', LiteralExpr DecimalToken ''2'',
                         LiteralExpr DecimalToken ''4''])
             (BinaryExpr SubToken (LiteralExpr DecimalToken ''0'') (LiteralExpr DecimalToken ''1'')))
          (NewRuntime Map.empty)) = Panic MakeSliceLenOutOfRange \<and>
   Eval example_platform 2 (BinaryExpr MulToken (Var ''a'') (Var ''j'')) array_024 =
     (Panic MakeSliceLenOutOfRange, array_024) \<and>
   Mul example_platform (StringV ''ab'') (IntV (- 1)) array_024 = (Ok (StringV []), array_024) \<and>
   fst (Eval example_platform 5 negative_repetition (NewRuntime Map.empty)) =
     Panic MakeSliceLenOutOfRange"
proof -
  have "fst (Eval example_platform 3
          (BinaryExpr MulToken
             (ArrayExpr [LiteralExpr DecimalToken ''0'', LiteralExpr DecimalToken ''2'',
                         LiteralExpr DecimalToken ''4''])
             (BinaryExpr SubToken (LiteralExpr DecimalToken ''0'') (LiteralExpr DecimalToken ''1'')))
          (NewRuntime Map.empty)) = Panic MakeSliceLenOutOfRange"
    by (simp add: Eval_numeral Eval_1 eval_defs Let_def cong: bind_weak_cong)
  moreover have "Eval example_platform 2 (BinaryExpr MulToken (Var ''a'') (Var ''j'')) array_024 =
          (Panic MakeSliceLenOutOfRange, array_024)"
    by (simp add: Eval_numeral Eval_1 eval_defs array_024_def Let_def cong: bind_weak_cong)
  moreover have "Mul example_platform (StringV ''ab'') (IntV (- 1)) array_024 =
          (Ok (StringV []), array_024)"
    by (simp add: Mul_string)
  moreover have "fst (Eval example_platform 5 negative_repetition (NewRuntime Map.empty)) =
          Panic MakeSliceLenOutOfRange"
    by (simp add: Eval_numeral Eval_1 eval_defs negative_repetition_def Let_def
          cong: bind_weak_cong)
  ultimately show ?thesis
    by simp
qed

section \<open>Scope.Set\<close>

lemma S_Set_mutable:
  "\<not> bound_constant s name \<Longrightarrow> S_Set s name b = (None, s\<lparr>bindings := (bindings s)(name \<mapsto> b)\<rparr>)"
  by (simp add: S_Set_def bound_constant_def S_Get_def)

lemma S_Set_constant:
  "bound_constant s name \<Longrightarrow> S_Set s name b = (Some (MutatingConstantError name), s)"
  by (simp add: S_Set_def bound_constant_def S_Get_def)

lemma bindings_twice:
  "(s\<lparr>bindings := (bindings s)(name \<mapsto> b)\<rparr>)
     \<lparr>bindings := (bindings (s\<lparr>bindings := (bindings s)(name \<mapsto> b)\<rparr>))(name \<mapsto> c)\<rparr>
   = s\<lparr>bindings := (bindings s)(name \<mapsto> c)\<rparr>"
  by (cases s) simp

lemma Set_all_mutable:
  "\<not> bound_constant s name \<Longrightarrow> \<forall>b \<in> set bs. \<not> Constant b \<Longrightarrow> bs \<noteq> [] \<Longrightarrow>
   Set_all s name bs = (replicate (length bs) None, s\<lparr>bindings := (bindings s)(name \<mapsto> last bs)\<rparr>)"
proof (induction bs arbitrary: s)
  case Nil
  then show ?case by simp
next
  case (Cons b bs)
  let ?s' = "s\<lparr>bindings := (bindings s)(name \<mapsto> b)\<rparr>"
  have step: "S_Set s name b = (None, ?s')"
    using Cons.prems(1) by (rule S_Set_mutable)
  show ?case
  proof (cases "bs = []")
    case True
    then show ?thesis
      by (simp only: Set_all.simps step split last.simps replicate.simps list.size if_True)
        (simp add: fun_upd_def)
  next
    case False
    have nc: "\<not> bound_constant ?s' name"
      using Cons.prems(2) by (simp add: bound_constant_def S_Get_def)
    have all: "\<forall>b \<in> set bs. \<not> Constant b"
      using Cons.prems(2) by simp
    have "Set_all ?s' name bs =
            (replicate (length bs) None, ?s'\<lparr>bindings := (bindings ?s')(name \<mapsto> last bs)\<rparr>)"
      by (rule Cons.IH [OF nc all False])
    then have "Set_all ?s' name bs =
            (replicate (length bs) None, s\<lparr>bindings := (bindings s)(name \<mapsto> last bs)\<rparr>)"
      by (simp only: bindings_twice)
    then show ?thesis
      using False
      by (simp only: Set_all.simps step split last.simps if_False) (simp add: fun_upd_def)
  qed
qed

text \<open>
  C7. \<open>Set\<close> on a name whose local binding is constant returns the constant-mutation error
  and leaves the scope as it was, so the old binding keeps its value and its constancy.
  In every other case \<open>Set\<close> returns no error and the scope maps the name to the new
  binding, the other names unchanged. Any number of successive \<open>Set\<close>s of non-constant
  bindings, on a name that is not bound constant, all succeed, and the last one stays.
\<close>

theorem C7_Set:
  "(bound_constant s name \<longrightarrow> S_Set s name b = (Some (MutatingConstantError name), s)) \<and>
   (\<not> bound_constant s name \<longrightarrow>
      S_Set s name b = (None, s\<lparr>bindings := (bindings s)(name \<mapsto> b)\<rparr>)) \<and>
   (\<not> bound_constant s name \<and> (\<forall>b \<in> set bs. \<not> Constant b) \<and> bs \<noteq> [] \<longrightarrow>
      Set_all s name bs =
        (replicate (length bs) None, s\<lparr>bindings := (bindings s)(name \<mapsto> last bs)\<rparr>))"
  using Set_all_mutable [of s name bs] S_Set_mutable [of s name b] S_Set_constant [of s name b]
  by simp

theorem C7_Set_witness:
  "bound_constant \<lparr>Parent = None, bindings = [''a'' \<mapsto> \<lparr>Item = IntV 1 :: unit val, Constant = True\<rparr>]\<rparr> ''a'' \<and>
   S_Set \<lparr>Parent = None, bindings = [''a'' \<mapsto> \<lparr>Item = IntV 1 :: unit val, Constant = True\<rparr>]\<rparr> ''a''
       \<lparr>Item = IntV 2, Constant = False\<rparr> =
     (Some (MutatingConstantError ''a''),
      \<lparr>Parent = None, bindings = [''a'' \<mapsto> \<lparr>Item = IntV 1, Constant = True\<rparr>]\<rparr>) \<and>
   \<not> bound_constant \<lparr>Parent = None, bindings = [''a'' \<mapsto> \<lparr>Item = IntV 1 :: unit val, Constant = False\<rparr>]\<rparr> ''a'' \<and>
   S_Set \<lparr>Parent = None, bindings = [''a'' \<mapsto> \<lparr>Item = IntV 1 :: unit val, Constant = False\<rparr>]\<rparr> ''a''
       \<lparr>Item = IntV 2, Constant = False\<rparr> =
     (None, \<lparr>Parent = None, bindings = [''a'' \<mapsto> \<lparr>Item = IntV 2, Constant = False\<rparr>]\<rparr>) \<and>
   Set_all \<lparr>Parent = None, bindings = [''a'' \<mapsto> \<lparr>Item = IntV 1 :: unit val, Constant = False\<rparr>]\<rparr> ''a''
       [\<lparr>Item = IntV 2, Constant = False\<rparr>, \<lparr>Item = IntV 3, Constant = False\<rparr>] =
     ([None, None], \<lparr>Parent = None, bindings = [''a'' \<mapsto> \<lparr>Item = IntV 3, Constant = False\<rparr>]\<rparr>)"
  using C7_Set [of "\<lparr>Parent = None, bindings = [''a'' \<mapsto> \<lparr>Item = IntV 1 :: unit val, Constant = True\<rparr>]\<rparr>" "''a''"
                  "\<lparr>Item = IntV 2, Constant = False\<rparr>" "[]"]
        C7_Set [of "\<lparr>Parent = None, bindings = [''a'' \<mapsto> \<lparr>Item = IntV 1 :: unit val, Constant = False\<rparr>]\<rparr>" "''a''"
                  "\<lparr>Item = IntV 2, Constant = False\<rparr>"
                  "[\<lparr>Item = IntV 2, Constant = False\<rparr>, \<lparr>Item = IntV 3, Constant = False\<rparr>]"]
  by (simp add: bound_constant_def S_Get_def S_Set_def)

section \<open>Declarations\<close>

text \<open>
  C8, as the code has it. A binding element with a simple name, once its value is there
  (the value passed in, or else what the default expression evaluates to), returns no
  error whatever the scope holds. Where the active scope binds the name constant, the
  state is left as it was and the old binding stays; otherwise the new binding replaces
  the old one.
\<close>

theorem C8_declaration:
  assumes "(if actual = Undefined then ev dflt st else (Ok actual, st)) = (Ok v, st1)"
    and "Scope st1 = Some a"
  shows "EvalBindingElement ev (Var name, dflt) actual c st =
     (Ok (),
      if bound_constant (scopes st1 a) name then st1
      else st1\<lparr>scopes := (scopes st1)
                 (a := (scopes st1 a)
                    \<lparr>bindings := (bindings (scopes st1 a))
                       (name \<mapsto> \<lparr>Item = v, Constant = c\<rparr>)\<rparr>)\<rparr>)"
proof (cases "actual = Undefined")
  case True
  with assms(1) have "ev dflt st = (Ok v, st1)" by simp
  with True assms(2) show ?thesis
    by (simp add: EvalBindingElement_def Scope_Set_eq)
next
  case False
  with assms(1) have "actual = v" and "st = st1" by simp_all
  with False assms(2) show ?thesis
    by (simp add: EvalBindingElement_def Scope_Set_eq)
qed

theorem C8_declaration_witness:
  "Eval example_platform (Suc 0) (Var ''v'') let_scope = (Ok (IntV 2), let_scope) \<and>
   Scope let_scope = Some 0 \<and>
   \<not> bound_constant (scopes let_scope 0) ''a'' \<and>
   EvalBindingElement (Eval example_platform (Suc 0)) (Var ''a'', Var ''v'') Undefined True let_scope =
     (Ok (),
      let_scope\<lparr>scopes := (scopes let_scope)
        (0 := \<lparr>Parent = None, bindings = [''a'' \<mapsto> \<lparr>Item = IntV 2, Constant = True\<rparr>]\<rparr>)\<rparr>) \<and>
   Eval example_platform (Suc 0) (Var ''v'') const_scope = (Ok (IntV 2), const_scope) \<and>
   Scope const_scope = Some 0 \<and>
   bound_constant (scopes const_scope 0) ''a'' \<and>
   EvalBindingElement (Eval example_platform (Suc 0)) (Var ''a'', Var ''v'') Undefined False const_scope =
     (Ok (), const_scope)"
proof -
  have l1: "(if (Undefined :: unit val) = Undefined
             then Eval example_platform (Suc 0) (Var ''v'') let_scope
             else (Ok Undefined, let_scope)) = (Ok (IntV 2), let_scope)"
    by (simp add: eval_defs let_scope_def)
  have l2: "Scope let_scope = Some 0"
    by (simp add: let_scope_def NewRuntime_def)
  have c1: "(if (Undefined :: unit val) = Undefined
             then Eval example_platform (Suc 0) (Var ''v'') const_scope
             else (Ok Undefined, const_scope)) = (Ok (IntV 2), const_scope)"
    by (simp add: eval_defs const_scope_def)
  have c2: "Scope const_scope = Some 0"
    by (simp add: const_scope_def NewRuntime_def)
  show ?thesis
    using l1 l2 c1 c2
      C8_declaration [where ev = "Eval example_platform (Suc 0)" and dflt = "Var ''v''"
        and st = let_scope and actual = Undefined and name = "''a''" and c = True, OF l1 l2]
      C8_declaration [where ev = "Eval example_platform (Suc 0)" and dflt = "Var ''v''"
        and st = const_scope and actual = Undefined and name = "''a''" and c = False, OF c1 c2]
    by (simp add: let_scope_def const_scope_def NewRuntime_def bound_constant_def S_Get_def)
qed

text \<open>
  The claim as stated fails: after \<open>const a = 1\<close>, the declaration \<open>let a = 2\<close> in the
  same scope returns no error and \<open>a\<close> still reads 1.
\<close>

theorem C8_counterexample:
  "fst (Eval example_platform 4 redeclare_const (NewRuntime Map.empty)) = Ok (IntV 1)"
  by (simp add: Eval_numeral Eval_1 eval_defs redeclare_const_def cong: bind_weak_cong)

section \<open>Dot access on objects\<close>

text \<open>
  C9. Where \<open>X\<close> evaluates to an object, the dot accesses \<open>X.map\<close>, \<open>X.reduce\<close> and
  \<open>X.forEach\<close> evaluate to the closures of \<open>EvalDotExpr\<close> over that object, whatever
  the object stores, under these three names too.
\<close>

theorem C9_builtin_shadows_entry:
  assumes "Eval P d X st = (Ok (ObjectV a), st')"
  shows "Eval P (Suc d) (DotExpr X ''map'') st = (Ok (ObjMethodV MapMethod a), st') \<and>
         Eval P (Suc d) (DotExpr X ''reduce'') st = (Ok (ObjMethodV Reduce a), st') \<and>
         Eval P (Suc d) (DotExpr X ''forEach'') st = (Ok (ObjMethodV ForEach a), st')"
  using assms by (simp add: EvalDotExpr_def)

theorem C9_builtin_shadows_entry_witness:
  "Eval example_platform (Suc 0) (Var ''o'') obj_with_map = (Ok (ObjectV 0), obj_with_map) \<and>
   objects obj_with_map 0 ''map'' = Some (IntV 5) \<and>
   Eval example_platform (Suc (Suc 0)) (DotExpr (Var ''o'') ''map'') obj_with_map =
     (Ok (ObjMethodV MapMethod 0), obj_with_map) \<and>
   Eval example_platform (Suc (Suc 0)) (DotExpr (Var ''o'') ''reduce'') obj_with_map =
     (Ok (ObjMethodV Reduce 0), obj_with_map) \<and>
   Eval example_platform (Suc (Suc 0)) (DotExpr (Var ''o'') ''forEach'') obj_with_map =
     (Ok (ObjMethodV ForEach 0), obj_with_map)"
proof -
  have h: "Eval example_platform (Suc 0) (Var ''o'') obj_with_map = (Ok (ObjectV 0), obj_with_map)"
    by (simp add: eval_defs obj_with_map_def)
  have g: "objects obj_with_map 0 ''map'' = Some (IntV 5)"
    by (simp add: obj_with_map_def)
  show ?thesis
    using h g C9_builtin_shadows_entry [OF h] by blast
qed

section \<open>Parameters and explicit Undefined\<close>






text \<open>The arity test comes before any binding: an argument too many is an error, \<open>Undefined\<close> or not.\<close>

lemma JSFunction_too_many_args:
  "length params < length args \<Longrightarrow>
   fst (JSFunction ev params body parent args st) =
     Err (WrongNumberOfArgsError (length args) (length params))"
  by (simp add: JSFunction_def)




end
